theory Spec2Isabelle
  imports Main "HOL-Library.Sublist" "HOL-Library.AList"
begin

section \<open>Python values, text and dictionaries\<close>

text \<open>
  The admin change list of \<^verbatim>\<open>django/contrib/admin/views/main.py\<close> and the filter
  specs of \<^verbatim>\<open>django/contrib/admin/filterspecs.py\<close> (Python 2) are embedded as HOL
  functions. Unicode text is a \<^typ>\<open>string\<close> of code points below 256; a dictionary is
  an association list with one entry per key, whose order stands for the (arbitrary)
  iteration order of a Python 2 dictionary.
\<close>

type_synonym ('k, 'v) dict = "('k \<times> 'v) list"

text \<open>The values met in query-string dictionaries and among filter choices.\<close>

datatype pyval = PNone | PStr string | PInt int | PBool bool | PList "string list"

definition startswith :: "string \<Rightarrow> string \<Rightarrow> bool" where
  "startswith s p = prefix p s"

definition endswith :: "string \<Rightarrow> string \<Rightarrow> bool" where
  "endswith s p = suffix p s"

section \<open>The store: dictionaries as mutable objects\<close>

text \<open>
  \<^verbatim>\<open>get_query_string\<close> mutates a dictionary it obtained by \<^verbatim>\<open>self.params.copy()\<close>.
  Dictionaries live in a store of cells; \<^verbatim>\<open>copy\<close> allocates a fresh cell, and
  \<^verbatim>\<open>del p[k]\<close> and \<^verbatim>\<open>p[k] = v\<close> update the cell their reference points to.
\<close>

type_synonym addr = nat

record heap =
  cell :: "addr \<Rightarrow> (string, pyval) dict"
  next_free :: addr

definition dict_copy :: "heap \<Rightarrow> addr \<Rightarrow> heap \<times> addr" where
  "dict_copy h a =
     (h\<lparr>cell := (cell h)(next_free h := cell h a), next_free := Suc (next_free h)\<rparr>,
      next_free h)"

definition dict_keys :: "heap \<Rightarrow> addr \<Rightarrow> string list" where
  "dict_keys h a = map fst (cell h a)"

definition dict_contains :: "heap \<Rightarrow> addr \<Rightarrow> string \<Rightarrow> bool" where
  "dict_contains h a k = (k \<in> set (map fst (cell h a)))"

definition dict_del :: "heap \<Rightarrow> addr \<Rightarrow> string \<Rightarrow> heap" where
  "dict_del h a k = h\<lparr>cell := (cell h)(a := AList.delete k (cell h a))\<rparr>"

definition dict_set :: "heap \<Rightarrow> addr \<Rightarrow> string \<Rightarrow> pyval \<Rightarrow> heap" where
  "dict_set h a k v = h\<lparr>cell := (cell h)(a := AList.update k v (cell h a))\<rparr>"

section \<open>ChangeList.get\_query\_string\<close>

text \<open>
  \<^verbatim>\<open>for r in remove: for k in p.keys(): if k.startswith(r): del p[k]\<close>.
  In Python 2 \<^verbatim>\<open>p.keys()\<close> is a list built when the inner loop starts.
\<close>

definition remove_loop :: "heap \<Rightarrow> addr \<Rightarrow> string list \<Rightarrow> heap" where
  "remove_loop h p remove =
     fold (\<lambda>r h. fold (\<lambda>k h. if startswith k r then dict_del h p k else h) (dict_keys h p) h)
       remove h"

text \<open>
  \<^verbatim>\<open>for k, v in new_params.items(): if v is None: (if k in p: del p[k]) else: p[k] = v\<close>.
\<close>

definition new_params_loop :: "heap \<Rightarrow> addr \<Rightarrow> (string, pyval) dict \<Rightarrow> heap" where
  "new_params_loop h p new_params =
     fold (\<lambda>(k, v) h.
             if v = PNone then (if dict_contains h p k then dict_del h p k else h)
             else dict_set h p k v)
       new_params h"

text \<open>
  \<^verbatim>\<open>urlencode\<close> (django.utils.http) is a parameter. The arguments \<^verbatim>\<open>new_params\<close> and
  \<^verbatim>\<open>remove\<close> default to \<^verbatim>\<open>None\<close>. The result is the store after the call and the
  returned string.
\<close>

definition get_query_string ::
  "((string, pyval) dict \<Rightarrow> string) \<Rightarrow> heap \<Rightarrow> addr \<Rightarrow>
     (string, pyval) dict option \<Rightarrow> string list option \<Rightarrow> heap \<times> string" where
  "get_query_string urlencode h self_params new_params remove =
     (let new_params = (case new_params of None \<Rightarrow> [] | Some d \<Rightarrow> d);
          remove = (case remove of None \<Rightarrow> [] | Some r \<Rightarrow> r);
          (h, p) = dict_copy h self_params;
          h = remove_loop h p remove;
          h = new_params_loop h p new_params
      in (h, ''?'' @ urlencode (cell h p)))"

text \<open>
  The dictionary as the specification words it: delete every key that starts with an
  element of \<^verbatim>\<open>remove\<close>, then go through \<^verbatim>\<open>new_params\<close>, deleting the key of a
  \<^verbatim>\<open>None\<close> and setting every other key.
\<close>

definition spec_query_dict ::
  "(string, pyval) dict \<Rightarrow> (string, pyval) dict \<Rightarrow> string list \<Rightarrow> (string, pyval) dict" where
  "spec_query_dict params new_params remove =
     fold (\<lambda>(k, v) d. if v = PNone then AList.delete k d else AList.update k v d) new_params
       (filter (\<lambda>(k, v). \<not> (\<exists>r \<in> set remove. prefix r k)) params)"

section \<open>Python text operations\<close>

text \<open>\<^verbatim>\<open>s.split(sep)\<close> with a one-character separator: every occurrence splits.\<close>

fun split_on :: "char \<Rightarrow> string \<Rightarrow> string list" where
  "split_on c [] = [[]]"
| "split_on c (x # xs) =
     (if x = c then [] # split_on c xs
      else (case split_on c xs of [] \<Rightarrow> [[x]] | w # ws \<Rightarrow> (x # w) # ws))"

text \<open>
  \<^verbatim>\<open>unicode.isspace\<close> on the code points below 256, and \<^verbatim>\<open>s.split()\<close>, which
  splits at runs of whitespace and yields no empty word.
\<close>

definition isspace :: "char \<Rightarrow> bool" where
  "isspace c = (let n = (of_char c :: nat)
                in (9 \<le> n \<and> n \<le> 13) \<or> (28 \<le> n \<and> n \<le> 32) \<or> n = 133 \<or> n = 160)"

fun split_ws_from :: "string \<Rightarrow> string \<Rightarrow> string list" where
  "split_ws_from w [] = (if w = [] then [] else [rev w])"
| "split_ws_from w (x # xs) =
     (if isspace x then (if w = [] then split_ws_from [] xs else rev w # split_ws_from [] xs)
      else split_ws_from (x # w) xs)"

definition split_ws :: "string \<Rightarrow> string list" where
  "split_ws s = split_ws_from [] s"

text \<open>\<^verbatim>\<open>unicode.lower\<close> on the code points below 256.\<close>

definition lower_char :: "char \<Rightarrow> char" where
  "lower_char c = (let n = (of_char c :: nat)
                   in if (65 \<le> n \<and> n \<le> 90) \<or> (192 \<le> n \<and> n \<le> 222 \<and> n \<noteq> 215)
                      then char_of (n + 32) else c)"

definition lower :: "string \<Rightarrow> string" where
  "lower s = map lower_char s"

text \<open>\<^verbatim>\<open>sub in s\<close>.\<close>

fun contains :: "string \<Rightarrow> string \<Rightarrow> bool" where
  "contains sub [] = (sub = [])"
| "contains sub (x # xs) = (prefix sub (x # xs) \<or> contains sub xs)"

text \<open>\<^verbatim>\<open>s.rpartition(c)\<close>: split at the last occurrence of the separator.\<close>

definition rpartition :: "string \<Rightarrow> char \<Rightarrow> string \<times> string \<times> string" where
  "rpartition s c =
     (if c \<in> set s
      then (rev (tl (dropWhile (\<lambda>x. x \<noteq> c) (rev s))), [c], rev (takeWhile (\<lambda>x. x \<noteq> c) (rev s)))
      else ([], [], s))"

text \<open>\<^verbatim>\<open>xs[i]\<close> on a list: a negative index counts from the end; \<^verbatim>\<open>None\<close> is IndexError.\<close>

definition list_get :: "'a list \<Rightarrow> int \<Rightarrow> 'a option" where
  "list_get xs i =
     (let n = int (length xs); j = (if i < 0 then n + i else i)
      in if 0 \<le> j \<and> j < n then Some (xs ! nat j) else None)"

section \<open>Dictionary keys: unicode and byte strings\<close>

text \<open>
  The keys of \<^verbatim>\<open>request.GET\<close> are unicode objects; keyword arguments are byte strings
  (\<^verbatim>\<open>str\<close>). Python 2 compares and hashes a \<^verbatim>\<open>str\<close> of ASCII bytes equal to the unicode
  object of the same text, so both are the one dictionary key \<open>Text s\<close>. A \<^verbatim>\<open>str\<close> with
  a byte above 127 equals no unicode object: it is the key \<open>Bytes b\<close>.
\<close>

datatype pykey = Text string | Bytes string

fun key_text :: "pykey \<Rightarrow> string" where
  "key_text (Text s) = s"
| "key_text (Bytes b) = b"

definition is_ascii :: "string \<Rightarrow> bool" where
  "is_ascii s = list_all (\<lambda>c. (of_char c :: nat) < 128) s"

definition utf8_char :: "char \<Rightarrow> string" where
  "utf8_char c = (let n = (of_char c :: nat)
                  in if n < 128 then [c] else [char_of (192 + n div 64), char_of (128 + n mod 64)])"

definition utf8 :: "string \<Rightarrow> string" where
  "utf8 s = concat (map utf8_char s)"

text \<open>
  \<^verbatim>\<open>smart_str(key)\<close> (django.utils.encoding) encodes a unicode object as UTF-8 and
  returns a \<^verbatim>\<open>str\<close> as it is. \<^verbatim>\<open>isinstance(key, str)\<close> is false of a unicode object; for
  an ASCII text the answer makes no difference, as \<^verbatim>\<open>smart_str\<close> returns the same key.
\<close>

fun smart_str :: "pykey \<Rightarrow> pykey" where
  "smart_str (Text s) = (if is_ascii s then Text s else Bytes (utf8 s))"
| "smart_str (Bytes b) = Bytes b"

fun isinstance_str :: "pykey \<Rightarrow> bool" where
  "isinstance_str (Text s) = False"
| "isinstance_str (Bytes b) = True"

definition key_endswith :: "pykey \<Rightarrow> string \<Rightarrow> bool" where
  "key_endswith k p = endswith (key_text k) p"

section \<open>Exceptions, constants and external collaborators\<close>

datatype exn =
    IncorrectLookupParameters
  | SuspiciousOperation string
  | InvalidPage
  | EmptyPage
  | PageNotAnInteger
  | OtherError string

text \<open>\<^verbatim>\<open>except InvalidPage\<close> also catches its subclasses EmptyPage and PageNotAnInteger.\<close>

fun isinstance_InvalidPage :: "exn \<Rightarrow> bool" where
  "isinstance_InvalidPage InvalidPage = True"
| "isinstance_InvalidPage EmptyPage = True"
| "isinstance_InvalidPage PageNotAnInteger = True"
| "isinstance_InvalidPage e = False"

definition MAX_SHOW_ALL_ALLOWED :: int where "MAX_SHOW_ALL_ALLOWED = 200"
definition ALL_VAR :: string where "ALL_VAR = ''all''"
definition ORDER_VAR :: string where "ORDER_VAR = ''o''"
definition ORDER_TYPE_VAR :: string where "ORDER_TYPE_VAR = ''ot''"
definition PAGE_VAR :: string where "PAGE_VAR = ''p''"
definition SEARCH_VAR :: string where "SEARCH_VAR = ''q''"
definition TO_FIELD_VAR :: string where "TO_FIELD_VAR = ''t''"
definition IS_POPUP_VAR :: string where "IS_POPUP_VAR = ''pop''"
definition ERROR_FLAG :: string where "ERROR_FLAG = ''e''"
definition EMPTY_CHANGELIST_VALUE :: string where "EMPTY_CHANGELIST_VALUE = ''(None)''"

text \<open>
  The object-relational mapper is external. A query set is a value of an arbitrary type
  \<open>'qs\<close>, and the calls the change list makes on it are the fields of a record.
  \<^verbatim>\<open>qs.filter(**kwargs)\<close> may raise; \<open>Q name bit\<close> is \<^verbatim>\<open>models.Q(**{name: bit})\<close> and
  \<open>Or\<close> is \<^verbatim>\<open>operator.or_\<close> on two such objects.
\<close>

datatype q = Q string string | Or q q

record 'qs orm =
  orm_filter :: "'qs \<Rightarrow> (pykey \<rightharpoonup> pyval) \<Rightarrow> exn + 'qs"
  orm_filter_q :: "'qs \<Rightarrow> q \<Rightarrow> 'qs"
  orm_select_related :: "'qs \<Rightarrow> 'qs"
  orm_order_by :: "'qs \<Rightarrow> string list \<Rightarrow> 'qs"
  orm_distinct :: "'qs \<Rightarrow> 'qs"
  orm_clone :: "'qs \<Rightarrow> 'qs"
  orm_count :: "'qs \<Rightarrow> int"
  query_select_related :: "'qs \<Rightarrow> bool"
  query_where :: "'qs \<Rightarrow> bool"

text \<open>
  Model fields, as far as the source reads them: the attributes it accesses and the
  outcome of each \<^verbatim>\<open>isinstance\<close> test it makes.
\<close>

record other_model =
  om_verbose_name :: string
  om_pk_name :: string

record rel =
  is_ManyToOneRel :: bool
  rel_to :: other_model

record field_attrs =
  f_name :: string
  f_verbose_name :: string
  f_null :: bool
  f_rel :: "rel option"
  f_choices :: bool
  f_flatchoices :: "(pyval \<times> string) list"
  f_get_choices :: "(pyval \<times> string) list"
  is_BooleanField :: bool
  is_NullBooleanField :: bool
  is_DateField :: bool
  is_ManyToManyField :: bool

record related_object =
  ro_var_name :: string
  ro_field :: field_attrs
  ro_model :: other_model
  ro_get_choices :: "(pyval \<times> string) list"

datatype field = Field field_attrs | RelatedObject related_object

text \<open>\<^verbatim>\<open>model._meta\<close>: \<^verbatim>\<open>get_field(name)\<close> raises FieldDoesNotExist (here \<open>None\<close>).\<close>

record options =
  opts_ordering :: "string list"
  pk_name :: string
  opts_fields :: "field_attrs list"

definition get_field :: "options \<Rightarrow> string \<Rightarrow> field_attrs option" where
  "get_field opts n = find (\<lambda>f. f_name f = n) (opts_fields opts)"

text \<open>
  An attribute of the model admin or of the model, and an entry of \<^verbatim>\<open>list_display\<close>:
  a name or a callable. \<open>admin_order_field\<close> is \<open>None\<close> when the object has no such
  attribute.
\<close>

datatype attr = Attr (admin_order_field: "string option")

datatype display_item = Name string | Callable attr

record 'qs paginator =
  pg_count :: int
  pg_page :: "int \<Rightarrow> exn + 'qs"

record 'qs model_admin =
  ma_ordering :: "string list option"
  lookup_allowed :: "pykey \<Rightarrow> bool"
  ma_getattr :: "string \<Rightarrow> attr option"
  get_paginator :: "'qs \<Rightarrow> int \<Rightarrow> 'qs paginator"

section \<open>FilterSpec: the methods the change list calls\<close>

text \<open>
  \<^verbatim>\<open>filter_spec.get_query_set(cl, qs)\<close> returns a query set, \<^verbatim>\<open>None\<close> or \<^verbatim>\<open>False\<close>, or
  raises; the change list is part of the closure. The base class returns \<^verbatim>\<open>False\<close> and
  consumes no parameter, and no class of filterspecs.py overrides either method.
\<close>

datatype 'qs fs_result = ResNone | ResFalse | ResQuerySet 'qs

record 'qs filter_spec =
  fs_get_query_set :: "'qs \<Rightarrow> exn + 'qs fs_result"
  fs_consumed_params :: "pykey list"

definition FilterSpec :: "'qs filter_spec" where
  "FilterSpec = \<lparr>fs_get_query_set = (\<lambda>qs. Inr ResFalse), fs_consumed_params = []\<rparr>"

section \<open>ChangeList\<close>

record 'qs change_list =
  cl_params :: "(string, string) dict"
  root_query_set :: "'qs"
  list_display :: "display_item list"
  search_fields :: "string list"
  list_select_related :: bool
  list_per_page :: int
  show_all :: bool
  page_num :: int
  filter_specs :: "'qs filter_spec list"
  cl_ordering :: "string list"
  cl_query :: string
  query_set :: "'qs"
  lookup_opts :: options
  model_admin :: "'qs model_admin"
  model_getattr :: "string \<Rightarrow> attr option"

subsection \<open>get\_results\<close>

record 'qs results =
  result_count :: int
  full_result_count :: int
  result_list :: "'qs"
  can_show_all :: bool
  multi_page :: bool
  res_paginator :: "'qs paginator"

definition get_results :: "'qs orm \<Rightarrow> 'qs change_list \<Rightarrow> exn + 'qs results" where
  "get_results orm self =
     (let paginator = get_paginator (model_admin self) (query_set self) (list_per_page self);
          result_count = pg_count paginator;
          full_result_count =
            (if \<not> query_where orm (query_set self) then result_count
             else orm_count orm (root_query_set self));
          can_show_all = (result_count \<le> MAX_SHOW_ALL_ALLOWED);
          multi_page = (result_count > list_per_page self);
          result_list =
            (if (show_all self \<and> can_show_all) \<or> \<not> multi_page
             then Inr (orm_clone orm (query_set self))
             else (case pg_page paginator (page_num self + 1) of
                     Inr object_list \<Rightarrow> Inr object_list
                   | Inl e \<Rightarrow>
                       if isinstance_InvalidPage e then Inl IncorrectLookupParameters else Inl e))
      in case result_list of
           Inl e \<Rightarrow> Inl e
         | Inr rl \<Rightarrow>
             Inr \<lparr>result_count = result_count, full_result_count = full_result_count,
                  result_list = rl, can_show_all = can_show_all, multi_page = multi_page,
                  res_paginator = paginator\<rparr>)"

subsection \<open>get\_ordering\<close>

text \<open>
  One entry of the \<^verbatim>\<open>o\<close> parameter: what is appended to \<^verbatim>\<open>ordering\<close>, \<open>None\<close> when
  the entry is skipped. Python's \<^verbatim>\<open>int\<close> is the parameter \<open>py_int\<close> (\<open>None\<close> is
  ValueError).
\<close>

definition order_field_name :: "'qs change_list \<Rightarrow> display_item \<Rightarrow> string option" where
  "order_field_name self field_name =
     (case (case field_name of Name n \<Rightarrow> get_field (lookup_opts self) n | Callable c \<Rightarrow> None) of
        Some f \<Rightarrow> Some (f_name f)
      | None \<Rightarrow>
          (case (case field_name of
                   Callable c \<Rightarrow> Some c
                 | Name n \<Rightarrow>
                     (case ma_getattr (model_admin self) n of
                        Some a \<Rightarrow> Some a
                      | None \<Rightarrow> model_getattr self n)) of
             None \<Rightarrow> None
           | Some a \<Rightarrow> admin_order_field a))"

definition order_entry ::
  "(string \<Rightarrow> int option) \<Rightarrow> 'qs change_list \<Rightarrow> string \<Rightarrow> string option" where
  "order_entry py_int self p =
     (case rpartition p CHR ''-'' of (none, pfx, idx) \<Rightarrow>
        (case py_int idx of
           None \<Rightarrow> None
         | Some i \<Rightarrow>
             (case list_get (list_display self) i of
                None \<Rightarrow> None
              | Some field_name \<Rightarrow>
                  (case order_field_name self field_name of
                     None \<Rightarrow> None
                   | Some n \<Rightarrow> Some (pfx @ n)))))"

definition get_ordering :: "(string \<Rightarrow> int option) \<Rightarrow> 'qs change_list \<Rightarrow> string list" where
  "get_ordering py_int self =
     (let ordering =
            (case ma_ordering (model_admin self) of
               Some o1 \<Rightarrow> if o1 \<noteq> [] then o1
                          else if opts_ordering (lookup_opts self) \<noteq> []
                               then opts_ordering (lookup_opts self)
                               else [''-'' @ pk_name (lookup_opts self)]
             | None \<Rightarrow> if opts_ordering (lookup_opts self) \<noteq> []
                       then opts_ordering (lookup_opts self)
                       else [''-'' @ pk_name (lookup_opts self)])
      in case map_of (cl_params self) ORDER_VAR of
           None \<Rightarrow> ordering
         | Some o_param \<Rightarrow>
             fold (\<lambda>p ordering. case order_entry py_int self p of
                                  None \<Rightarrow> ordering
                                | Some x \<Rightarrow> ordering @ [x])
               (split_on CHR '','' o_param) [])"

subsection \<open>get\_query\_set\<close>

definition control_vars :: "string list" where
  "control_vars = [ALL_VAR, ORDER_VAR, ORDER_TYPE_VAR, SEARCH_VAR, IS_POPUP_VAR]"

text \<open>
  \<^verbatim>\<open>lookup_params = self.params.copy()\<close> without the control parameters; its
  \<^verbatim>\<open>items()\<close> is the list the next loop goes through.
\<close>

definition lookup_items :: "'qs change_list \<Rightarrow> (string, string) dict" where
  "lookup_items self =
     fold (\<lambda>i d. if i \<in> set (map fst d) then AList.delete i d else d) control_vars (cl_params self)"

text \<open>The body of \<^verbatim>\<open>for key, value in lookup_params.items()\<close>.\<close>

definition prepare_param ::
  "pykey \<Rightarrow> string \<Rightarrow> (pykey, pyval) dict \<Rightarrow> (pykey, pyval) dict" where
  "prepare_param key v lookup_params =
     (let lookup_params =
            (if \<not> isinstance_str key
             then AList.update (smart_str key) (PStr v) (AList.delete key lookup_params)
             else lookup_params);
          lookup_params =
            (if key_endswith key ''__in''
             then AList.update key (PList (split_on CHR '','' v)) lookup_params
             else lookup_params);
          lookup_params =
            (if key_endswith key ''__isnull''
             then (if lower v \<in> set ['''', ''false'']
                   then AList.update key (PBool False) lookup_params
                   else AList.update key (PBool True) lookup_params)
             else lookup_params)
      in lookup_params)"

definition prepared_params :: "'qs change_list \<Rightarrow> (pykey, pyval) dict" where
  "prepared_params self =
     fold (\<lambda>(k, v) lookup_params. prepare_param (Text k) v lookup_params) (lookup_items self)
       (map (\<lambda>(k, v). (Text k, PStr v)) (lookup_items self))"

text \<open>The loop variable \<^verbatim>\<open>key\<close> after the loop: \<^verbatim>\<open>''\<close> when there was no item.\<close>

definition last_key :: "'qs change_list \<Rightarrow> pykey" where
  "last_key self = (if lookup_items self = [] then Text [] else Text (fst (last (lookup_items self))))"

text \<open>
  Lines 221 to 228: a result that is neither \<^verbatim>\<open>None\<close> nor \<^verbatim>\<open>False\<close> replaces the
  query set, and the parameters the spec consumes are deleted (a missing key is passed
  over).
\<close>

definition consume ::
  "'qs filter_spec \<Rightarrow> 'qs fs_result \<Rightarrow> 'qs \<times> (pykey, pyval) dict \<Rightarrow> 'qs \<times> (pykey, pyval) dict" where
  "consume filter_spec new_qs st =
     (case new_qs of
        ResQuerySet new \<Rightarrow> (new, fold AList.delete (fs_consumed_params filter_spec) (snd st))
      | ResNone \<Rightarrow> st
      | ResFalse \<Rightarrow> st)"

text \<open>
  \<^verbatim>\<open>for filter_spec in self.filter_specs\<close>. The first component of the result lists the
  arguments of the calls of \<^verbatim>\<open>model_admin.lookup_allowed\<close>, in order.
\<close>

fun filter_specs_loop ::
  "(pykey \<Rightarrow> bool) \<Rightarrow> pykey \<Rightarrow> 'qs filter_spec list \<Rightarrow> 'qs \<times> (pykey, pyval) dict \<Rightarrow>
     pykey list \<times> (exn + 'qs \<times> (pykey, pyval) dict)" where
  "filter_specs_loop allowed key [] st = ([], Inr st)"
| "filter_specs_loop allowed key (filter_spec # rest) st =
     (case fs_get_query_set filter_spec (fst st) of
        Inl e \<Rightarrow> ([], Inl e)
      | Inr new_qs \<Rightarrow>
          (if \<not> allowed key
           then ([key],
                 Inl (SuspiciousOperation (''Filtering by '' @ key_text key @ '' not allowed'')))
           else (case filter_specs_loop allowed key rest (consume filter_spec new_qs st) of
                   (calls, r) \<Rightarrow> (key # calls, r))))"

text \<open>Lines 194 to 233: the query set and the keyword arguments handed to \<^verbatim>\<open>qs.filter\<close>.\<close>

definition filter_kwargs ::
  "'qs change_list \<Rightarrow> pykey list \<times> (exn + 'qs \<times> (pykey, pyval) dict)" where
  "filter_kwargs self =
     filter_specs_loop (lookup_allowed (model_admin self)) (last_key self) (filter_specs self)
       (root_query_set self, prepared_params self)"

fun select_related_loop :: "'qs orm \<Rightarrow> options \<Rightarrow> display_item list \<Rightarrow> 'qs \<Rightarrow> 'qs" where
  "select_related_loop orm opts [] qs = qs"
| "select_related_loop orm opts (field_name # rest) qs =
     (case (case field_name of Name n \<Rightarrow> get_field opts n | Callable c \<Rightarrow> None) of
        None \<Rightarrow> select_related_loop orm opts rest qs
      | Some f \<Rightarrow>
          (if (case f_rel f of None \<Rightarrow> False | Some r \<Rightarrow> is_ManyToOneRel r)
           then orm_select_related orm qs
           else select_related_loop orm opts rest qs))"

definition construct_search :: "string \<Rightarrow> string" where
  "construct_search field_name =
     (if startswith field_name ''^'' then tl field_name @ ''__istartswith''
      else if startswith field_name ''='' then tl field_name @ ''__iexact''
      else if startswith field_name ''@'' then tl field_name @ ''__search''
      else field_name @ ''__icontains'')"

text \<open>\<^verbatim>\<open>reduce(f, xs)\<close> raises TypeError on an empty list (here \<open>None\<close>).\<close>

fun reduce :: "('a \<Rightarrow> 'a \<Rightarrow> 'a) \<Rightarrow> 'a list \<Rightarrow> 'a option" where
  "reduce f [] = None"
| "reduce f (x # xs) = Some (foldl f x xs)"

fun distinct_loop :: "'qs orm \<Rightarrow> string list \<Rightarrow> 'qs \<Rightarrow> 'qs" where
  "distinct_loop orm [] qs = qs"
| "distinct_loop orm (field_name # rest) qs =
     (if contains ''__'' field_name then orm_distinct orm qs else distinct_loop orm rest qs)"

fun search_loop :: "'qs orm \<Rightarrow> string list \<Rightarrow> string list \<Rightarrow> 'qs \<Rightarrow> exn + 'qs" where
  "search_loop orm names [] qs = Inr qs"
| "search_loop orm names (b # bs) qs =
     (let or_queries = map (\<lambda>field_name. Q (construct_search field_name) b) names
      in case reduce Or or_queries of
           None \<Rightarrow> Inl (OtherError ''TypeError'')
         | Some query \<Rightarrow> search_loop orm names bs (orm_filter_q orm qs query))"

definition apply_search :: "'qs orm \<Rightarrow> 'qs change_list \<Rightarrow> 'qs \<Rightarrow> exn + 'qs" where
  "apply_search orm self qs =
     (if search_fields self \<noteq> [] \<and> cl_query self \<noteq> []
      then (case search_loop orm (search_fields self) (split_ws (cl_query self)) qs of
              Inl e \<Rightarrow> Inl e
            | Inr qs \<Rightarrow> Inr (distinct_loop orm (search_fields self) qs))
      else Inr qs)"

text \<open>Lines 235 to 265: the lookup parameters, \<^verbatim>\<open>select_related\<close> and the ordering.\<close>

definition before_search :: "'qs orm \<Rightarrow> 'qs change_list \<Rightarrow> exn + 'qs" where
  "before_search orm self =
     (case snd (filter_kwargs self) of
        Inl e \<Rightarrow> Inl e
      | Inr (qs, lookup_params) \<Rightarrow>
          (case orm_filter orm qs (map_of lookup_params) of
             Inl e \<Rightarrow> Inl IncorrectLookupParameters
           | Inr qs \<Rightarrow>
               (let qs = (if \<not> query_select_related orm qs
                          then (if list_select_related self then orm_select_related orm qs
                                else select_related_loop orm (lookup_opts self) (list_display self) qs)
                          else qs);
                    qs = (if cl_ordering self \<noteq> [] then orm_order_by orm qs (cl_ordering self)
                          else qs)
                in Inr qs)))"

definition get_query_set :: "'qs orm \<Rightarrow> 'qs change_list \<Rightarrow> exn + 'qs" where
  "get_query_set orm self =
     (case before_search orm self of
        Inl e \<Rightarrow> Inl e
      | Inr qs \<Rightarrow> apply_search orm self qs)"

subsection \<open>The lookup parameters as the specification words them\<close>

text \<open>
  From a copy of \<^verbatim>\<open>self.params\<close>: the control parameters are deleted, the value of a
  key ending in \<^verbatim>\<open>__in\<close> is replaced by the list of its comma-separated parts, and the
  value of a key ending in \<^verbatim>\<open>__isnull\<close> by \<^verbatim>\<open>False\<close> when its lower case is empty or
  \<^verbatim>\<open>false\<close> and by \<^verbatim>\<open>True\<close> otherwise.
\<close>

definition spec_lookup_value :: "string \<Rightarrow> string \<Rightarrow> pyval" where
  "spec_lookup_value k v =
     (if endswith k ''__isnull'' then PBool (lower v \<noteq> '''' \<and> lower v \<noteq> ''false'')
      else if endswith k ''__in'' then PList (split_on CHR '','' v)
      else PStr v)"

definition spec_lookup_params :: "(string, string) dict \<Rightarrow> (pykey \<rightharpoonup> pyval)" where
  "spec_lookup_params params k =
     (case k of
        Bytes b \<Rightarrow> None
      | Text s \<Rightarrow>
          if s \<in> set control_vars then None
          else map_option (spec_lookup_value s) (map_of params s))"

text \<open>
  The parameters consumed by the filter specs whose result replaced the query set, when
  the specs are run from the query set \<open>qs\<close>.
\<close>

fun consumed_keys :: "'qs filter_spec list \<Rightarrow> 'qs \<Rightarrow> pykey list" where
  "consumed_keys [] qs = []"
| "consumed_keys (filter_spec # rest) qs =
     (case fs_get_query_set filter_spec qs of
        Inr (ResQuerySet new) \<Rightarrow> fs_consumed_params filter_spec @ consumed_keys rest new
      | _ \<Rightarrow> consumed_keys rest qs)"

section \<open>filterspecs.py\<close>

text \<open>
  \<^verbatim>\<open>request.GET.get(key, None)\<close>: the query dictionary holds one value per key, as
  \<^verbatim>\<open>dict(request.GET.items())\<close> does.
\<close>

record request =
  GET :: "(string, string) dict"

definition GET_get :: "request \<Rightarrow> string \<Rightarrow> string option" where
  "GET_get req k = map_of (GET req) k"

text \<open>\<^verbatim>\<open>bool(x)\<close> of a value that is \<^verbatim>\<open>None\<close> or a string.\<close>

definition truthy :: "string option \<Rightarrow> bool" where
  "truthy x = (case x of None \<Rightarrow> False | Some s \<Rightarrow> s \<noteq> [])"

text \<open>
  What the filter specs take from outside the module: \<^verbatim>\<open>urlencode\<close>, \<^verbatim>\<open>smart_unicode\<close>,
  \<^verbatim>\<open>ugettext\<close>, \<^verbatim>\<open>get_model_from_relation\<close> (django.contrib.admin.util) and the values
  that \<^verbatim>\<open>queryset.distinct().order_by(f.name).values_list(f.name, flat=True)\<close> yields.
\<close>

record externals =
  ext_urlencode :: "(string, pyval) dict \<Rightarrow> string"
  ext_smart_unicode :: "pyval \<Rightarrow> string"
  ext_ugettext :: "string \<Rightarrow> string"
  ext_get_model_from_relation :: "field \<Rightarrow> other_model"
  ext_values_list :: "field \<Rightarrow> pyval list"

text \<open>
  \<^verbatim>\<open>cl.get_query_string(new_params, remove)\<close>, called on a change list whose
  \<^verbatim>\<open>params\<close> dictionary is cell 0 of the store.
\<close>

definition cl_get_query_string ::
  "externals \<Rightarrow> (string, string) dict \<Rightarrow> (string, pyval) dict option \<Rightarrow> string list option \<Rightarrow>
     string" where
  "cl_get_query_string ext cl new_params remove =
     snd (get_query_string (ext_urlencode ext)
            \<lparr>cell = (\<lambda>a. map (\<lambda>(k, v). (k, PStr v)) cl), next_free = 1\<rparr> 0 new_params remove)"

record choice =
  selected :: bool
  query_string :: string
  display :: string

subsection \<open>FieldFilterSpec\<close>

text \<open>
  The instance attributes set by \<^verbatim>\<open>FilterSpec.__init__\<close> and
  \<^verbatim>\<open>FieldFilterSpec.__init__\<close>; the subclasses extend the record.
\<close>

record field_filter_spec =
  spec_params :: "(string, string) dict"
  spec_field :: field
  spec_field_path :: string

definition isinstance_RelatedObject :: "field \<Rightarrow> bool" where
  "isinstance_RelatedObject f = (case f of RelatedObject ro \<Rightarrow> True | Field a \<Rightarrow> False)"

text \<open>Every \<^verbatim>\<open>models.Field\<close> has the attribute \<^verbatim>\<open>rel\<close>; a RelatedObject has not.\<close>

definition hasattr_rel :: "field \<Rightarrow> bool" where
  "hasattr_rel f = (case f of RelatedObject ro \<Rightarrow> False | Field a \<Rightarrow> True)"

definition FieldFilterSpec_init ::
  "field \<Rightarrow> request \<Rightarrow> (string, string) dict \<Rightarrow> string option \<Rightarrow> field_filter_spec" where
  "FieldFilterSpec_init f req params field_path =
     \<lparr>spec_params = params, spec_field = f,
      spec_field_path =
        (case field_path of
           Some p \<Rightarrow> p
         | None \<Rightarrow> (case f of RelatedObject ro \<Rightarrow> ro_var_name ro | Field a \<Rightarrow> f_name a))\<rparr>"

subsection \<open>RelatedFilterSpec\<close>

record related_filter_spec = field_filter_spec +
  r_lookup_title :: string
  r_lookup_kwarg :: string
  r_lookup_kwarg_isnull :: string
  r_lookup_val :: "string option"
  r_lookup_val_isnull :: "string option"
  r_lookup_choices :: "(pyval \<times> string) list"

definition RelatedFilterSpec_init ::
  "externals \<Rightarrow> field \<Rightarrow> request \<Rightarrow> (string, string) dict \<Rightarrow> string option \<Rightarrow>
     related_filter_spec" where
  "RelatedFilterSpec_init ext f req params field_path =
     (let base = FieldFilterSpec_init f req params field_path;
          other = ext_get_model_from_relation ext f;
          lookup_kwarg = spec_field_path base @ ''__'' @ om_pk_name other @ ''__exact'';
          lookup_kwarg_isnull = spec_field_path base @ ''__isnull''
      in field_filter_spec.extend base
           \<lparr>r_lookup_title =
              (case f of
                 RelatedObject ro \<Rightarrow> om_verbose_name other
               | Field a \<Rightarrow> if is_ManyToManyField a then om_verbose_name other
                            else f_verbose_name a),
            r_lookup_kwarg = lookup_kwarg,
            r_lookup_kwarg_isnull = lookup_kwarg_isnull,
            r_lookup_val = GET_get req lookup_kwarg,
            r_lookup_val_isnull = GET_get req lookup_kwarg_isnull,
            r_lookup_choices =
              (case f of RelatedObject ro \<Rightarrow> ro_get_choices ro | Field a \<Rightarrow> f_get_choices a)\<rparr>)"

text \<open>
  \<^verbatim>\<open>isinstance(self.field, RelatedObject) and self.field.field.null or
  hasattr(self.field, 'rel') and self.field.null\<close>.
\<close>

definition related_nullable :: "field \<Rightarrow> bool" where
  "related_nullable f =
     ((isinstance_RelatedObject f \<and> (case f of RelatedObject ro \<Rightarrow> f_null (ro_field ro) | _ \<Rightarrow> False))
      \<or> (hasattr_rel f \<and> (case f of Field a \<Rightarrow> f_null a | _ \<Rightarrow> False)))"

definition RelatedFilterSpec_has_output :: "related_filter_spec \<Rightarrow> bool" where
  "RelatedFilterSpec_has_output self =
     (length (r_lookup_choices self) + (if related_nullable (spec_field self) then 1 else 0) > 1)"

definition RelatedFilterSpec_choices ::
  "externals \<Rightarrow> (string, string) dict \<Rightarrow> related_filter_spec \<Rightarrow> choice list" where
  "RelatedFilterSpec_choices ext cl self =
     [\<lparr>selected = (r_lookup_val self = None \<and> \<not> truthy (r_lookup_val_isnull self)),
       query_string = cl_get_query_string ext cl (Some [])
                        (Some [r_lookup_kwarg self, r_lookup_kwarg_isnull self]),
       display = ext_ugettext ext ''All''\<rparr>]
     @ map (\<lambda>(pk_val, val).
              \<lparr>selected = (r_lookup_val self = Some (ext_smart_unicode ext pk_val)),
               query_string = cl_get_query_string ext cl (Some [(r_lookup_kwarg self, pk_val)])
                                (Some [r_lookup_kwarg_isnull self]),
               display = val\<rparr>)
         (r_lookup_choices self)
     @ (if related_nullable (spec_field self)
        then [\<lparr>selected = truthy (r_lookup_val_isnull self),
               query_string = cl_get_query_string ext cl
                                (Some [(r_lookup_kwarg_isnull self, PStr ''True'')])
                                (Some [r_lookup_kwarg self]),
               display = EMPTY_CHANGELIST_VALUE\<rparr>]
        else [])"

subsection \<open>BooleanFieldFilterSpec\<close>

record boolean_filter_spec = field_filter_spec +
  b_lookup_kwarg :: string
  b_lookup_kwarg2 :: string
  b_lookup_val :: "string option"
  b_lookup_val2 :: "string option"

definition BooleanFieldFilterSpec_init ::
  "field \<Rightarrow> request \<Rightarrow> (string, string) dict \<Rightarrow> string option \<Rightarrow> boolean_filter_spec" where
  "BooleanFieldFilterSpec_init f req params field_path =
     (let base = FieldFilterSpec_init f req params field_path;
          lookup_kwarg = spec_field_path base @ ''__exact'';
          lookup_kwarg2 = spec_field_path base @ ''__isnull''
      in field_filter_spec.extend base
           \<lparr>b_lookup_kwarg = lookup_kwarg, b_lookup_kwarg2 = lookup_kwarg2,
            b_lookup_val = GET_get req lookup_kwarg,
            b_lookup_val2 = GET_get req lookup_kwarg2\<rparr>)"

definition isinstance_NullBooleanField :: "field \<Rightarrow> bool" where
  "isinstance_NullBooleanField f =
     (case f of Field a \<Rightarrow> is_NullBooleanField a | RelatedObject ro \<Rightarrow> False)"

definition BooleanFieldFilterSpec_choices ::
  "externals \<Rightarrow> (string, string) dict \<Rightarrow> boolean_filter_spec \<Rightarrow> choice list" where
  "BooleanFieldFilterSpec_choices ext cl self =
     map (\<lambda>(k, v).
            \<lparr>selected = (b_lookup_val self = v \<and> \<not> truthy (b_lookup_val2 self)),
             query_string = cl_get_query_string ext cl
                              (Some [(b_lookup_kwarg self,
                                      (case v of None \<Rightarrow> PNone | Some s \<Rightarrow> PStr s))])
                              (Some [b_lookup_kwarg2 self]),
             display = k\<rparr>)
       [(ext_ugettext ext ''All'', None), (ext_ugettext ext ''Yes'', Some ''1''),
        (ext_ugettext ext ''No'', Some ''0'')]
     @ (if isinstance_NullBooleanField (spec_field self)
        then [\<lparr>selected = (b_lookup_val2 self = Some ''True''),
               query_string = cl_get_query_string ext cl
                                (Some [(b_lookup_kwarg2 self, PStr ''True'')])
                                (Some [b_lookup_kwarg self]),
               display = ext_ugettext ext ''Unknown''\<rparr>]
        else [])"

subsection \<open>ChoicesFilterSpec\<close>

record choices_filter_spec = field_filter_spec +
  c_lookup_kwarg :: string
  c_lookup_val :: "string option"

definition ChoicesFilterSpec_init ::
  "field \<Rightarrow> request \<Rightarrow> (string, string) dict \<Rightarrow> string option \<Rightarrow> choices_filter_spec" where
  "ChoicesFilterSpec_init f req params field_path =
     (let base = FieldFilterSpec_init f req params field_path;
          lookup_kwarg = spec_field_path base @ ''__exact''
      in field_filter_spec.extend base
           \<lparr>c_lookup_kwarg = lookup_kwarg, c_lookup_val = GET_get req lookup_kwarg\<rparr>)"

text \<open>
  \<^verbatim>\<open>self.field.flatchoices\<close> is an attribute of a model field; on a RelatedObject the
  access raises AttributeError, after the first choice has been yielded (\<open>Inl\<close> holds
  the choices yielded before the exception).
\<close>

definition ChoicesFilterSpec_choices ::
  "externals \<Rightarrow> (string, string) dict \<Rightarrow> choices_filter_spec \<Rightarrow> choice list + choice list" where
  "ChoicesFilterSpec_choices ext cl self =
     (let first = \<lparr>selected = (c_lookup_val self = None),
                   query_string = cl_get_query_string ext cl (Some []) (Some [c_lookup_kwarg self]),
                   display = ext_ugettext ext ''All''\<rparr>
      in case spec_field self of
           RelatedObject ro \<Rightarrow> Inl [first]
         | Field a \<Rightarrow>
             Inr (first #
                  map (\<lambda>(k, v).
                         \<lparr>selected = (Some (ext_smart_unicode ext k) = c_lookup_val self),
                          query_string = cl_get_query_string ext cl
                                           (Some [(c_lookup_kwarg self, k)]) None,
                          display = v\<rparr>)
                    (f_flatchoices a)))"

subsection \<open>DateFieldFilterSpec\<close>

text \<open>
  The attributes that do not depend on the clock; \<^verbatim>\<open>self.links\<close> is built from
  \<^verbatim>\<open>datetime.date.today()\<close> and is left out.
\<close>

record date_filter_spec = field_filter_spec +
  d_field_generic :: string
  d_date_params :: "(string, string) dict"

definition DateFieldFilterSpec_init ::
  "field \<Rightarrow> request \<Rightarrow> (string, string) dict \<Rightarrow> string option \<Rightarrow> date_filter_spec" where
  "DateFieldFilterSpec_init f req params field_path =
     (let base = FieldFilterSpec_init f req params field_path;
          field_generic = spec_field_path base @ ''__''
      in field_filter_spec.extend base
           \<lparr>d_field_generic = field_generic,
            d_date_params = filter (\<lambda>(k, v). startswith k field_generic) params\<rparr>)"

subsection \<open>AllValuesFilterSpec\<close>

record all_values_filter_spec = field_filter_spec +
  a_lookup_kwarg :: string
  a_lookup_kwarg_isnull :: string
  a_lookup_val :: "string option"
  a_lookup_val_isnull :: "string option"
  a_lookup_choices :: "pyval list"

definition AllValuesFilterSpec_init ::
  "externals \<Rightarrow> field \<Rightarrow> request \<Rightarrow> (string, string) dict \<Rightarrow> string option \<Rightarrow>
     all_values_filter_spec" where
  "AllValuesFilterSpec_init ext f req params field_path =
     (let base = FieldFilterSpec_init f req params field_path;
          lookup_kwarg = spec_field_path base;
          lookup_kwarg_isnull = spec_field_path base @ ''__isnull''
      in field_filter_spec.extend base
           \<lparr>a_lookup_kwarg = lookup_kwarg, a_lookup_kwarg_isnull = lookup_kwarg_isnull,
            a_lookup_val = GET_get req lookup_kwarg,
            a_lookup_val_isnull = GET_get req lookup_kwarg_isnull,
            a_lookup_choices = ext_values_list ext f\<rparr>)"

text \<open>
  The loop over \<^verbatim>\<open>self.lookup_choices\<close>: the choices it yields, and \<^verbatim>\<open>include_none\<close>
  after it.
\<close>

fun all_values_loop ::
  "externals \<Rightarrow> (string, string) dict \<Rightarrow> all_values_filter_spec \<Rightarrow> pyval list \<Rightarrow> bool \<Rightarrow>
     choice list \<times> bool" where
  "all_values_loop ext cl self [] include_none = ([], include_none)"
| "all_values_loop ext cl self (v # vs) include_none =
     (if v = PNone then all_values_loop ext cl self vs True
      else (let val = ext_smart_unicode ext v;
                c = \<lparr>selected = (a_lookup_val self = Some val),
                     query_string = cl_get_query_string ext cl
                                      (Some [(a_lookup_kwarg self, PStr val)])
                                      (Some [a_lookup_kwarg_isnull self]),
                     display = val\<rparr>
            in case all_values_loop ext cl self vs include_none of
                 (cs, inc) \<Rightarrow> (c # cs, inc)))"

definition AllValuesFilterSpec_choices ::
  "externals \<Rightarrow> (string, string) dict \<Rightarrow> all_values_filter_spec \<Rightarrow> choice list" where
  "AllValuesFilterSpec_choices ext cl self =
     (case all_values_loop ext cl self (a_lookup_choices self) False of
        (cs, include_none) \<Rightarrow>
          [\<lparr>selected = (a_lookup_val self = None \<and> a_lookup_val_isnull self = None),
            query_string = cl_get_query_string ext cl (Some [])
                             (Some [a_lookup_kwarg self, a_lookup_kwarg_isnull self]),
            display = ext_ugettext ext ''All''\<rparr>]
          @ cs
          @ (if include_none
             then [\<lparr>selected = truthy (a_lookup_val_isnull self),
                    query_string = cl_get_query_string ext cl
                                     (Some [(a_lookup_kwarg_isnull self, PStr ''True'')])
                                     (Some [a_lookup_kwarg self]),
                    display = EMPTY_CHANGELIST_VALUE\<rparr>]
             else []))"

subsection \<open>Registration and dispatch\<close>

text \<open>
  \<^verbatim>\<open>register\<close> and \<^verbatim>\<open>create\<close> are class methods: they are called on FieldFilterSpec or
  on a class derived from it, named here with the class it derives from.
\<close>

datatype klass = FieldFilterSpec_class | Subclass string klass

definition RelatedFilterSpec_class :: klass where
  "RelatedFilterSpec_class = Subclass ''RelatedFilterSpec'' FieldFilterSpec_class"

text \<open>
  The class attributes. \<^verbatim>\<open>field_filter_specs\<close> is a single list object, bound in
  FieldFilterSpec and changed in place, so every class sees the same list.
  \<^verbatim>\<open>_high_priority_index\<close> is an integer: \<open>own_index\<close> holds the binding in the class's
  own namespace, \<open>None\<close> when the class has none (FieldFilterSpec always has one). A
  factory takes the field and the remaining arguments \<open>'ctx\<close> of \<^verbatim>\<open>create\<close>.
\<close>

record ('ctx, 'i) registry =
  field_filter_specs :: "((field \<Rightarrow> bool) \<times> (field \<Rightarrow> 'ctx \<Rightarrow> 'i)) list"
  own_index :: "klass \<Rightarrow> nat option"

text \<open>
  Reading \<^verbatim>\<open>cls._high_priority_index\<close>: the binding of the class itself, else that of
  the classes it derives from.
\<close>

fun high_priority_index :: "('ctx, 'i) registry \<Rightarrow> klass \<Rightarrow> nat" where
  "high_priority_index reg FieldFilterSpec_class =
     (case own_index reg FieldFilterSpec_class of Some i \<Rightarrow> i | None \<Rightarrow> 0)"
| "high_priority_index reg (Subclass n base) =
     (case own_index reg (Subclass n base) of
        Some i \<Rightarrow> i
      | None \<Rightarrow> high_priority_index reg base)"

definition initial_registry :: "('ctx, 'i) registry" where
  "initial_registry =
     \<lparr>field_filter_specs = [], own_index = (\<lambda>c. None)(FieldFilterSpec_class \<mapsto> 0)\<rparr>"

text \<open>\<^verbatim>\<open>xs.insert(i, x)\<close> with \<open>i\<close> not negative: past the end it appends.\<close>

definition list_insert :: "nat \<Rightarrow> 'a \<Rightarrow> 'a list \<Rightarrow> 'a list" where
  "list_insert i x xs = take i xs @ x # drop i xs"

text \<open>
  \<^verbatim>\<open>cls._high_priority_index += 1\<close> reads the attribute through \<^verbatim>\<open>cls\<close> and binds the
  sum in \<^verbatim>\<open>cls\<close> itself.
\<close>

definition register ::
  "klass \<Rightarrow> (field \<Rightarrow> bool) \<Rightarrow> (field \<Rightarrow> 'ctx \<Rightarrow> 'i) \<Rightarrow> bool \<Rightarrow> ('ctx, 'i) registry \<Rightarrow>
     ('ctx, 'i) registry" where
  "register cls test factory high_priority reg =
     (if high_priority
      then reg\<lparr>field_filter_specs :=
                 list_insert (high_priority_index reg cls) (test, factory) (field_filter_specs reg),
               own_index := (own_index reg)(cls \<mapsto> high_priority_index reg cls + 1)\<rparr>
      else reg\<lparr>field_filter_specs := field_filter_specs reg @ [(test, factory)]\<rparr>)"

fun create_loop ::
  "((field \<Rightarrow> bool) \<times> (field \<Rightarrow> 'ctx \<Rightarrow> 'i)) list \<Rightarrow> field \<Rightarrow> 'ctx \<Rightarrow> 'i option" where
  "create_loop [] f ctx = None"
| "create_loop ((test, factory) # rest) f ctx =
     (if test f then Some (factory f ctx) else create_loop rest f ctx)"

text \<open>\<^verbatim>\<open>cls.field_filter_specs\<close> is the one list, whatever \<^verbatim>\<open>cls\<close> is.\<close>

definition create :: "klass \<Rightarrow> ('ctx, 'i) registry \<Rightarrow> field \<Rightarrow> 'ctx \<Rightarrow> 'i option" where
  "create cls reg f ctx = create_loop (field_filter_specs reg) f ctx"

text \<open>The instances the module's factories build, and the arguments of \<^verbatim>\<open>create\<close>.\<close>

datatype spec_instance =
    RelatedFilterSpec related_filter_spec
  | BooleanFieldFilterSpec boolean_filter_spec
  | ChoicesFilterSpec choices_filter_spec
  | DateFieldFilterSpec date_filter_spec
  | AllValuesFilterSpec all_values_filter_spec

record create_args =
  arg_request :: request
  arg_params :: "(string, string) dict"
  arg_field_path :: "string option"

text \<open>
  The tests of the five module-level registrations. \<^verbatim>\<open>f.choices\<close> and the
  \<^verbatim>\<open>isinstance\<close> tests against field classes are read on a model field only: a
  RelatedObject is accepted by the first test.
\<close>

definition related_test :: "field \<Rightarrow> bool" where
  "related_test f =
     ((hasattr_rel f \<and> (case f of Field a \<Rightarrow> f_rel a \<noteq> None | RelatedObject ro \<Rightarrow> False))
      \<or> isinstance_RelatedObject f)"

definition boolean_test :: "field \<Rightarrow> bool" where
  "boolean_test f =
     (case f of Field a \<Rightarrow> is_BooleanField a \<or> is_NullBooleanField a | RelatedObject ro \<Rightarrow> False)"

definition choices_test :: "field \<Rightarrow> bool" where
  "choices_test f = (case f of Field a \<Rightarrow> f_choices a | RelatedObject ro \<Rightarrow> False)"

definition date_test :: "field \<Rightarrow> bool" where
  "date_test f = (case f of Field a \<Rightarrow> is_DateField a | RelatedObject ro \<Rightarrow> False)"

definition all_values_test :: "field \<Rightarrow> bool" where
  "all_values_test f = True"

text \<open>The five registrations at module level, each through FieldFilterSpec.\<close>

definition filterspecs_registry :: "externals \<Rightarrow> (create_args, spec_instance) registry" where
  "filterspecs_registry ext =
     (let reg = initial_registry;
          reg = register FieldFilterSpec_class related_test
                  (\<lambda>f a. RelatedFilterSpec
                     (RelatedFilterSpec_init ext f (arg_request a) (arg_params a) (arg_field_path a)))
                  False reg;
          reg = register FieldFilterSpec_class boolean_test
                  (\<lambda>f a. BooleanFieldFilterSpec
                     (BooleanFieldFilterSpec_init f (arg_request a) (arg_params a) (arg_field_path a)))
                  False reg;
          reg = register FieldFilterSpec_class choices_test
                  (\<lambda>f a. ChoicesFilterSpec
                     (ChoicesFilterSpec_init f (arg_request a) (arg_params a) (arg_field_path a)))
                  False reg;
          reg = register FieldFilterSpec_class date_test
                  (\<lambda>f a. DateFieldFilterSpec
                     (DateFieldFilterSpec_init f (arg_request a) (arg_params a) (arg_field_path a)))
                  False reg;
          reg = register FieldFilterSpec_class all_values_test
                  (\<lambda>f a. AllValuesFilterSpec
                     (AllValuesFilterSpec_init ext f (arg_request a) (arg_params a) (arg_field_path a)))
                  False reg
      in reg)"

section \<open>Example data\<close>

definition example_urlencode :: "(string, pyval) dict \<Rightarrow> string" where
  "example_urlencode d =
     concat (map (\<lambda>(k, v). k @ ''='' @ (case v of PStr s \<Rightarrow> s | _ \<Rightarrow> ''?'') @ ''&'') d)"

definition example_heap :: heap where
  "example_heap =
     \<lparr>cell = (\<lambda>a. [])(0 := [(''year'', PStr ''1999''), (''year__isnull'', PStr ''True''),
                             (''q'', PStr ''x'')]),
      next_free = 1\<rparr>"

text \<open>
  An example object-relational mapper: a query set is the list of the calls made on it.
  Filtering by the keyword \<^verbatim>\<open>bad\<close> raises.
\<close>

fun show_q :: "q \<Rightarrow> string" where
  "show_q (Q n v) = n @ ''='' @ v"
| "show_q (Or a b) = ''('' @ show_q a @ '' | '' @ show_q b @ '')''"

definition example_orm :: "string list orm" where
  "example_orm =
     \<lparr>orm_filter = (\<lambda>qs kw. if kw (Text ''bad'') \<noteq> None then Inl (OtherError ''FieldError'')
                              else Inr (qs @ [''filter''])),
      orm_filter_q = (\<lambda>qs x. qs @ [show_q x]),
      orm_select_related = (\<lambda>qs. qs @ [''select_related'']),
      orm_order_by = (\<lambda>qs names. qs @ [''order_by'']),
      orm_distinct = (\<lambda>qs. qs @ [''distinct'']),
      orm_clone = (\<lambda>qs. qs),
      orm_count = (\<lambda>qs. 7),
      query_select_related = (\<lambda>qs. False),
      query_where = (\<lambda>qs. qs \<noteq> [])\<rparr>"

definition example_field :: "string \<Rightarrow> field_attrs" where
  "example_field n =
     \<lparr>f_name = n, f_verbose_name = n, f_null = False, f_rel = None, f_choices = False,
      f_flatchoices = [], f_get_choices = [], is_BooleanField = False,
      is_NullBooleanField = False, is_DateField = False, is_ManyToManyField = False\<rparr>"

definition example_opts :: options where
  "example_opts =
     \<lparr>opts_ordering = [], pk_name = ''id'',
      opts_fields = [example_field ''title'', example_field ''year'']\<rparr>"

definition example_admin :: "string list model_admin" where
  "example_admin =
     \<lparr>ma_ordering = None,
      lookup_allowed = (\<lambda>k. k \<noteq> Text ''secret''),
      ma_getattr = (\<lambda>n. if n = ''full_name'' then Some (Attr (Some ''last_name'')) else None),
      get_paginator = (\<lambda>qs per_page.
         \<lparr>pg_count = 5,
          pg_page = (\<lambda>n. if 1 \<le> n \<and> n \<le> 3 then Inr (qs @ [''page'']) else Inl EmptyPage)\<rparr>)\<rparr>"

definition example_cl :: "string list change_list" where
  "example_cl =
     \<lparr>cl_params = [(''q'', ''django book''), (''tags__in'', ''a,b''), (''year__isnull'', ''True'')],
      root_query_set = [],
      list_display = [Name ''title'', Name ''full_name'', Callable (Attr None)],
      search_fields = [''^title'', ''author__name''],
      list_select_related = False,
      list_per_page = 2,
      show_all = False,
      page_num = 0,
      filter_specs = [],
      cl_ordering = [''-id''],
      cl_query = ''django book'',
      query_set = [''filter''],
      lookup_opts = example_opts,
      model_admin = example_admin,
      model_getattr = (\<lambda>n. None)\<rparr>"

text \<open>
  The filter spec of the regression tests (DjangoBookFilterSpec): it narrows the query
  set and consumes the parameters it reads.
\<close>

definition DjangoBookFilterSpec :: "string list filter_spec" where
  "DjangoBookFilterSpec =
     \<lparr>fs_get_query_set = (\<lambda>qs. Inr (ResQuerySet (qs @ [''title__icontains=django'']))),
      fs_consumed_params = [Text ''about_django'', Text ''about_music'', Text '''']\<rparr>"

text \<open>An instance of Python's \<^verbatim>\<open>int\<close> for the examples: it reads strings of decimal digits.\<close>

definition example_int :: "string \<Rightarrow> int option" where
  "example_int s =
     (if s \<noteq> [] \<and> list_all (\<lambda>c. 48 \<le> (of_char c :: nat) \<and> (of_char c :: nat) \<le> 57) s
      then Some (foldl (\<lambda>a c. 10 * a + (int (of_char c) - 48)) 0 s)
      else None)"

text \<open>
  Examples for the filter specs: \<^verbatim>\<open>smart_unicode\<close> on the values the examples use
  (decimal digits for an integer), \<^verbatim>\<open>ugettext\<close> without translation, a related model
  with primary key \<^verbatim>\<open>id\<close>, and the distinct years of the regression tests' books.
\<close>

fun show_nat :: "nat \<Rightarrow> string" where
  "show_nat n =
     (if n < 10 then [char_of (48 + n)] else show_nat (n div 10) @ [char_of (48 + n mod 10)])"

definition example_smart_unicode :: "pyval \<Rightarrow> string" where
  "example_smart_unicode v =
     (case v of
        PNone \<Rightarrow> ''None''
      | PStr s \<Rightarrow> s
      | PInt i \<Rightarrow> (if i < 0 then ''-'' @ show_nat (nat (- i)) else show_nat (nat i))
      | PBool b \<Rightarrow> (if b then ''True'' else ''False'')
      | PList xs \<Rightarrow> concat xs)"

declare show_nat.simps [simp del]

definition example_ext :: externals where
  "example_ext =
     \<lparr>ext_urlencode = example_urlencode,
      ext_smart_unicode = example_smart_unicode,
      ext_ugettext = (\<lambda>s. s),
      ext_get_model_from_relation = (\<lambda>f. \<lparr>om_verbose_name = ''user'', om_pk_name = ''id''\<rparr>),
      ext_values_list = (\<lambda>f. [PNone, PInt 1999, PInt 2002])\<rparr>"

definition example_author :: field where
  "example_author =
     Field ((example_field ''author'')
       \<lparr>f_null := True,
        f_rel := Some \<lparr>is_ManyToOneRel = True,
                       rel_to = \<lparr>om_verbose_name = ''user'', om_pk_name = ''id''\<rparr>\<rparr>,
        f_get_choices := [(PInt 1, ''alfred''), (PInt 2, ''bob''), (PInt 3, ''lisa'')]\<rparr>)"

definition example_completed :: field where
  "example_completed = Field ((example_field ''completed'')\<lparr>is_NullBooleanField := True\<rparr>)"

definition example_year :: field where
  "example_year = Field ((example_field ''year'')\<lparr>f_null := True\<rparr>)"

definition example_request :: "(string, string) dict \<Rightarrow> request" where
  "example_request d = \<lparr>GET = d\<rparr>"

definition example_args :: "(string, string) dict \<Rightarrow> create_args" where
  "example_args d = \<lparr>arg_request = example_request d, arg_params = d, arg_field_path = None\<rparr>"

section \<open>Store lemmas\<close>

lemma fold_local:
  assumes "\<And>x h a. cell (f x h) a = (if a = p then g x (cell h p) else cell h a)"
  shows "cell (fold f xs h) a = (if a = p then fold g xs (cell h p) else cell h a)"
  by (induction xs arbitrary: h) (simp_all add: assms)

lemma remove_inner_pure:
  "fold (\<lambda>k d. if startswith k r then AList.delete k d else d) ks d =
     filter (\<lambda>(k, v). \<not> (k \<in> set ks \<and> startswith k r)) d"
proof (induction ks arbitrary: d)
  case Nil
  show ?case by simp
next
  case (Cons k ks)
  have "filter (\<lambda>(k', v). \<not> (k' \<in> set ks \<and> startswith k' r)) (AList.delete k d) =
        filter (\<lambda>(k', v). \<not> (k' \<in> set (k # ks) \<and> startswith k' r)) d" if "startswith k r"
    unfolding AList.delete_eq filter_filter
    by (rule filter_cong) (use that in auto)
  moreover
  have "filter (\<lambda>(k', v). \<not> (k' \<in> set ks \<and> startswith k' r)) d =
        filter (\<lambda>(k', v). \<not> (k' \<in> set (k # ks) \<and> startswith k' r)) d" if "\<not> startswith k r"
    by (rule filter_cong) (use that in auto)
  ultimately show ?case
    by (simp add: Cons.IH)
qed

lemma filter_own_keys:
  "filter (\<lambda>(k, v). \<not> (k \<in> set (map fst d) \<and> P k)) d = filter (\<lambda>(k, v). \<not> P k) d"
  by (rule filter_cong) force+

lemma remove_outer_filter:
  "fold (\<lambda>r d. filter (\<lambda>(k, v). \<not> startswith k r) d) rs d =
     filter (\<lambda>(k, v). \<not> (\<exists>r \<in> set rs. prefix r k)) d"
proof (induction rs arbitrary: d)
  case Nil
  show ?case by simp
next
  case (Cons r rs)
  have "filter (\<lambda>(k, v). \<not> (\<exists>r \<in> set rs. prefix r k)) (filter (\<lambda>(k, v). \<not> startswith k r) d) =
        filter (\<lambda>(k, v). \<not> (\<exists>r' \<in> set (r # rs). prefix r' k)) d"
    unfolding filter_filter
    by (rule filter_cong) (auto simp: startswith_def)
  then show ?case
    by (simp only: fold_Cons comp_apply Cons.IH)
qed

lemma remove_outer_pure:
  "fold (\<lambda>r d. fold (\<lambda>k d. if startswith k r then AList.delete k d else d) (map fst d) d) rs d =
     filter (\<lambda>(k, v). \<not> (\<exists>r \<in> set rs. prefix r k)) d"
proof -
  have eq: "(\<lambda>r d. fold (\<lambda>k d. if startswith k r then AList.delete k d else d) (map fst d) d) =
        (\<lambda>r d. filter (\<lambda>(k, v). \<not> startswith k r) d)"
    by (intro ext) (simp only: remove_inner_pure filter_own_keys)
  show ?thesis
    by (subst eq) (rule remove_outer_filter)
qed

lemma remove_loop_cell:
  "cell (remove_loop h p remove) a =
     (if a = p then filter (\<lambda>(k, v). \<not> (\<exists>r \<in> set remove. prefix r k)) (cell h p)
      else cell h a)"
proof -
  have inner: "cell (fold (\<lambda>k h. if startswith k r then dict_del h p k else h) ks h) a =
      (if a = p then fold (\<lambda>k d. if startswith k r then AList.delete k d else d) ks (cell h p)
       else cell h a)" for r ks h a
    by (rule fold_local) (simp add: dict_del_def)
  have "cell (remove_loop h p remove) a =
      (if a = p
       then fold (\<lambda>r d. fold (\<lambda>k d. if startswith k r then AList.delete k d else d) (map fst d) d)
              remove (cell h p)
       else cell h a)"
    unfolding remove_loop_def
    by (rule fold_local) (simp add: inner dict_keys_def)
  then show ?thesis
    by (simp add: remove_outer_pure)
qed

lemma new_params_loop_cell:
  "cell (new_params_loop h p new_params) a =
     (if a = p
      then fold (\<lambda>(k, v) d. if v = PNone then AList.delete k d else AList.update k v d)
             new_params (cell h p)
      else cell h a)"
  unfolding new_params_loop_def
  by (rule fold_local) (auto simp: dict_contains_def dict_del_def dict_set_def)

section \<open>Lemmas on get\_query\_set\<close>

lemma search_loop_Inr:
  "names \<noteq> [] \<Longrightarrow>
   search_loop orm names ws qs =
     Inr (fold (\<lambda>w qs. orm_filter_q orm qs
                 (foldl Or (Q (construct_search (hd names)) w)
                    (map (\<lambda>f. Q (construct_search f) w) (tl names)))) ws qs)"
  by (induction ws arbitrary: qs) (auto simp: Let_def neq_Nil_conv)

lemma distinct_loop_eq:
  "distinct_loop orm names qs =
     (if \<exists>f \<in> set names. contains ''__'' f then orm_distinct orm qs else qs)"
  by (induction names) auto

lemma loop_Cons_snd:
  "snd (filter_specs_loop allowed key (fs # rest) st) =
     (case fs_get_query_set fs (fst st) of
        Inl e \<Rightarrow> Inl e
      | Inr r \<Rightarrow>
          if \<not> allowed key
          then Inl (SuspiciousOperation (''Filtering by '' @ key_text key @ '' not allowed''))
          else snd (filter_specs_loop allowed key rest (consume fs r st)))"
  by (simp split: sum.splits prod.splits)

lemma loop_Cons_fst:
  "fst (filter_specs_loop allowed key (fs # rest) st) =
     (case fs_get_query_set fs (fst st) of
        Inl e \<Rightarrow> []
      | Inr r \<Rightarrow>
          if \<not> allowed key then [key]
          else key # fst (filter_specs_loop allowed key rest (consume fs r st)))"
  by (simp split: sum.splits prod.splits)

lemma loop_append:
  "snd (filter_specs_loop allowed key (xs @ ys) st) =
     (case snd (filter_specs_loop allowed key xs st) of
        Inl e \<Rightarrow> Inl e
      | Inr st' \<Rightarrow> snd (filter_specs_loop allowed key ys st'))"
proof (induction xs arbitrary: st)
  case Nil
  show ?case by simp
next
  case (Cons fs xs)
  show ?case
    by (simp only: append_Cons loop_Cons_snd Cons.IH split: sum.splits if_splits) simp
qed

lemma loop_calls:
  "set (fst (filter_specs_loop allowed key specs st)) \<subseteq> {key} \<and>
   length (fst (filter_specs_loop allowed key specs st)) \<le> length specs \<and>
   (\<forall>x. snd (filter_specs_loop allowed key specs st) = Inr x \<longrightarrow>
      fst (filter_specs_loop allowed key specs st) = replicate (length specs) key)"
proof (induction specs arbitrary: st)
  case Nil
  show ?case by simp
next
  case (Cons fs specs)
  show ?case
  proof (cases "fs_get_query_set fs (fst st)")
    case (Inl e)
    then show ?thesis by (simp add: loop_Cons_snd loop_Cons_fst del: filter_specs_loop.simps)
  next
    case (Inr r)
    show ?thesis
      using Cons.IH [of "consume fs r st"] Inr
      by (simp add: loop_Cons_snd loop_Cons_fst del: filter_specs_loop.simps)
  qed
qed

lemma map_of_fold_delete:
  "map_of (fold AList.delete ks d) = (\<lambda>k. if k \<in> set ks then None else map_of d k)"
  by (induction ks arbitrary: d) (auto simp: AList.delete_conv' fun_eq_iff)

lemma fold_delete_present:
  "fold (\<lambda>i d. if i \<in> set (map fst d) then AList.delete i d else d) ks d =
     filter (\<lambda>(k, v). k \<notin> set ks) d"
proof (induction ks arbitrary: d)
  case Nil
  show ?case by simp
next
  case (Cons i ks)
  have "filter (\<lambda>(k, v). k \<notin> set ks) (AList.delete i d) = filter (\<lambda>(k, v). k \<notin> set (i # ks)) d"
    unfolding AList.delete_eq filter_filter
    by (rule filter_cong) auto
  moreover have "filter (\<lambda>(k, v). k \<notin> set ks) d = filter (\<lambda>(k, v). k \<notin> set (i # ks)) d"
    if "i \<notin> set (map fst d)"
    by (rule filter_cong) (use that in force)+
  ultimately show ?case
    by (simp only: fold_Cons comp_apply Cons.IH split: if_split) simp
qed

lemma lookup_items_eq:
  "lookup_items self = filter (\<lambda>(k, v). k \<notin> set control_vars) (cl_params self)"
  by (simp only: lookup_items_def fold_delete_present)

lemma apply_search_Inr: "\<exists>qs'. apply_search orm self qs = Inr qs'"
  by (simp add: apply_search_def search_loop_Inr)


lemma apply_search_not_Inl: "apply_search orm self qs \<noteq> Inl e"
  using apply_search_Inr [of orm self qs] by auto

lemma dropWhile_until:
  "c \<notin> set xs \<Longrightarrow> dropWhile (\<lambda>x. x \<noteq> c) (xs @ c # ys) = c # ys"
  by (induction xs) auto

lemma takeWhile_until:
  "c \<notin> set xs \<Longrightarrow> takeWhile (\<lambda>x. x \<noteq> c) (xs @ c # ys) = xs"
  by (induction xs) auto

lemma rpartition_found:
  "c \<notin> set t \<Longrightarrow> rpartition (h @ c # t) c = (h, [c], t)"
  by (simp add: rpartition_def dropWhile_until takeWhile_until)

lemma rpartition_missing: "c \<notin> set s \<Longrightarrow> rpartition s c = ([], [], s)"
  by (simp add: rpartition_def)

lemma fold_append_map_filter:
  "fold (\<lambda>p acc. case f p of None \<Rightarrow> acc | Some x \<Rightarrow> acc @ [x]) ps acc =
     acc @ List.map_filter f ps"
  by (induction ps arbitrary: acc) (auto simp: List.map_filter_simps split: option.splits)

lemma get_field_name: "get_field opts n = Some f \<Longrightarrow> f_name f = n"
  by (auto simp: get_field_def find_Some_iff)

lemma prepare_param_map:
  assumes "is_ascii k"
  shows "map_of (prepare_param (Text k) v lp) = (map_of lp)(Text k \<mapsto> spec_lookup_value k v)"
  using assms
  by (auto simp: prepare_param_def Let_def spec_lookup_value_def key_endswith_def
      AList.update_conv' AList.delete_conv' fun_eq_iff)

lemma prepare_fold_map:
  assumes "list_all (\<lambda>(k, v). is_ascii k) items"
  shows "map_of (fold (\<lambda>(k, v) lp. prepare_param (Text k) v lp) items lp) =
         fold (\<lambda>(k, v) m. m(Text k \<mapsto> spec_lookup_value k v)) items (map_of lp)"
  using assms
proof (induction items arbitrary: lp)
  case Nil
  show ?case by simp
next
  case (Cons kv items)
  obtain k v where kv: "kv = (k, v)" by (cases kv)
  from Cons.prems have a: "is_ascii k" and r: "list_all (\<lambda>(k, v). is_ascii k) items"
    by (simp_all add: kv)
  show ?case
    by (simp add: kv Cons.IH [OF r] prepare_param_map [OF a])
qed

lemma fold_upd_Text:
  assumes "distinct (map fst items)"
  shows "fold (\<lambda>(k, v) m. m(Text k \<mapsto> f k v)) items m (Text s) =
         (case map_of items s of Some v \<Rightarrow> Some (f s v) | None \<Rightarrow> m (Text s))"
  using assms
proof (induction items arbitrary: m)
  case Nil
  show ?case by simp
next
  case (Cons kv items)
  obtain k v where kv: "kv = (k, v)" by (cases kv)
  from Cons.prems have d: "distinct (map fst items)" and n: "k \<notin> fst ` set items"
    by (simp_all add: kv)
  from n have none: "map_of items k = None"
    by (simp add: map_of_eq_None_iff)
  let ?F = "\<lambda>(k, v) m. m(Text k \<mapsto> f k v)"
  have "fold ?F (kv # items) m (Text s) = fold ?F items (m(Text k \<mapsto> f k v)) (Text s)"
    by (simp add: kv)
  also have "\<dots> = (case map_of items s of Some v \<Rightarrow> Some (f s v)
                     | None \<Rightarrow> (m(Text k \<mapsto> f k v)) (Text s))"
    by (rule Cons.IH [OF d])
  also have "\<dots> = (case map_of (kv # items) s of Some v \<Rightarrow> Some (f s v) | None \<Rightarrow> m (Text s))"
    using none by (auto simp: kv split: option.splits)
  finally show ?case .
qed

lemma fold_upd_Bytes:
  "fold (\<lambda>(k, v) m. m(Text k \<mapsto> f k v)) items m (Bytes b) = m (Bytes b)"
  by (induction items arbitrary: m) auto

lemma map_of_inject_Text:
  "map_of (map (\<lambda>(k, v). (Text k, PStr v)) items) (Text s) = map_option PStr (map_of items s)"
  by (induction items) auto

lemma map_of_inject_Bytes:
  "map_of (map (\<lambda>(k, v). (Text k, PStr v)) items) (Bytes b) = None"
  by (induction items) auto

lemma map_of_filter_keys:
  "map_of (filter (\<lambda>(k, v). k \<notin> A) d) s = (if s \<in> A then None else map_of d s)"
  by (induction d) auto

lemma prepared_params_spec:
  assumes "distinct (map fst (cl_params self))"
    and "list_all (\<lambda>(k, v). is_ascii k) (cl_params self)"
  shows "map_of (prepared_params self) = spec_lookup_params (cl_params self)"
proof
  fix key
  let ?items = "filter (\<lambda>(k, v). k \<notin> set control_vars) (cl_params self)"
  have d: "distinct (map fst ?items)"
    using assms(1) by (simp add: distinct_map_filter)
  have a: "list_all (\<lambda>(k, v). is_ascii k) ?items"
    using assms(2) by (simp add: list_all_iff)
  have m: "map_of (prepared_params self) =
           fold (\<lambda>(k, v) m. m(Text k \<mapsto> spec_lookup_value k v)) ?items
             (map_of (map (\<lambda>(k, v). (Text k, PStr v)) ?items))"
    by (simp add: prepared_params_def lookup_items_eq prepare_fold_map [OF a])
  show "map_of (prepared_params self) key = spec_lookup_params (cl_params self) key"
  proof (cases key)
    case (Text s)
    show ?thesis
      by (simp add: m Text fold_upd_Text [OF d] map_of_inject_Text map_of_filter_keys
          spec_lookup_params_def split: option.splits)
  next
    case (Bytes b)
    show ?thesis
      by (simp add: m Bytes fold_upd_Bytes map_of_inject_Bytes spec_lookup_params_def)
  qed
qed

lemma loop_consumed:
  "snd (filter_specs_loop allowed key specs st) = Inr st' \<Longrightarrow>
   map_of (snd st') =
     (\<lambda>k. if k \<in> set (consumed_keys specs (fst st)) then None else map_of (snd st) k)"
proof (induction specs arbitrary: st)
  case Nil
  then show ?case by simp
next
  case (Cons fs specs)
  from Cons.prems obtain r where r: "fs_get_query_set fs (fst st) = Inr r"
    and rest: "snd (filter_specs_loop allowed key specs (consume fs r st)) = Inr st'"
    by (auto simp: loop_Cons_snd simp del: filter_specs_loop.simps(2)
        split: sum.splits if_splits)
  note ih = Cons.IH [OF rest]
  show ?case
    by (cases r) (auto simp: ih r consume_def map_of_fold_delete fun_eq_iff)
qed

lemma loop_unchanged:
  "allowed key \<Longrightarrow>
   (\<forall>x \<in> set specs. \<forall>q. fs_get_query_set x q = Inr ResNone \<or>
                           fs_get_query_set x q = Inr ResFalse) \<Longrightarrow>
   snd (filter_specs_loop allowed key specs st) = Inr st"
proof (induction specs)
  case Nil
  show ?case by simp
next
  case (Cons x specs)
  have ih: "snd (filter_specs_loop allowed key specs st) = Inr st"
    using Cons.IH Cons.prems by simp
  have "fs_get_query_set x (fst st) = Inr ResNone \<or>
        fs_get_query_set x (fst st) = Inr ResFalse"
    using Cons.prems(2) by simp
  then show ?case
  proof
    assume "fs_get_query_set x (fst st) = Inr ResNone"
    then show ?thesis
      using Cons.prems(1) ih
      by (simp add: loop_Cons_snd consume_def del: filter_specs_loop.simps(2))
  next
    assume "fs_get_query_set x (fst st) = Inr ResFalse"
    then show ?thesis
      using Cons.prems(1) ih
      by (simp add: loop_Cons_snd consume_def del: filter_specs_loop.simps(2))
  qed
qed

lemma loop_split:
  "snd (filter_specs_loop allowed key pre st0) = Inr st \<Longrightarrow> allowed key \<Longrightarrow>
   fs_get_query_set fs (fst st) = Inr r \<Longrightarrow>
   snd (filter_specs_loop allowed key (pre @ fs # post) st0) =
     snd (filter_specs_loop allowed key post (consume fs r st))"
  by (simp add: loop_append loop_Cons_snd del: filter_specs_loop.simps(2))

lemma get_query_set_kwargs:
  "get_query_set orm self =
     (case snd (filter_kwargs self) of
        Inl e \<Rightarrow> Inl e
      | Inr (qs, lookup_params) \<Rightarrow>
          (case orm_filter orm qs (map_of lookup_params) of
             Inl e \<Rightarrow> Inl IncorrectLookupParameters
           | Inr qs \<Rightarrow>
               apply_search orm self
                 (let qs = (if \<not> query_select_related orm qs
                            then (if list_select_related self then orm_select_related orm qs
                                  else select_related_loop orm (lookup_opts self)
                                         (list_display self) qs)
                            else qs)
                  in if cl_ordering self \<noteq> [] then orm_order_by orm qs (cl_ordering self)
                     else qs)))"
  by (simp add: get_query_set_def before_search_def Let_def split: sum.splits prod.splits)

section \<open>Lemmas on registration and dispatch\<close>

lemma create_loop_find:
  "create_loop specs f ctx =
     (case find (\<lambda>(test, factory). test f) specs of
        None \<Rightarrow> None
      | Some (test, factory) \<Rightarrow> Some (factory f ctx))"
  by (induction specs f ctx rule: create_loop.induct) auto

text \<open>
  \<^verbatim>\<open>create\<close> returns what the factory of the first pair whose test accepts the field
  builds, and \<^verbatim>\<open>None\<close> exactly when no test accepts it.
\<close>

lemma create_first_match:
  "create cls reg f ctx =
     (case find (\<lambda>(test, factory). test f) (field_filter_specs reg) of
        None \<Rightarrow> None
      | Some (test, factory) \<Rightarrow> Some (factory f ctx))"
  by (simp add: create_def create_loop_find)

lemma create_None_iff:
  "(create cls reg f ctx = None) =
     (\<not> (\<exists>(test, factory) \<in> set (field_filter_specs reg). test f))"
proof -
  have "(create cls reg f ctx = None) =
        (find (\<lambda>(test, factory). test f) (field_filter_specs reg) = None)"
    by (simp add: create_first_match split: option.splits prod.splits)
  also have "\<dots> = (\<not> (\<exists>(test, factory) \<in> set (field_filter_specs reg). test f))"
    by (simp add: find_None_iff Bex_def)
  finally show ?thesis .
qed

text \<open>With the five registrations of the module \<^verbatim>\<open>create\<close> always returns an instance.\<close>

lemma create_filterspecs_registry:
  "create cls (filterspecs_registry ext) f a =
     Some (if related_test f
           then RelatedFilterSpec
                  (RelatedFilterSpec_init ext f (arg_request a) (arg_params a) (arg_field_path a))
           else if boolean_test f
           then BooleanFieldFilterSpec
                  (BooleanFieldFilterSpec_init f (arg_request a) (arg_params a) (arg_field_path a))
           else if choices_test f
           then ChoicesFilterSpec
                  (ChoicesFilterSpec_init f (arg_request a) (arg_params a) (arg_field_path a))
           else if date_test f
           then DateFieldFilterSpec
                  (DateFieldFilterSpec_init f (arg_request a) (arg_params a) (arg_field_path a))
           else AllValuesFilterSpec
                  (AllValuesFilterSpec_init ext f (arg_request a) (arg_params a) (arg_field_path a)))"
  by (simp add: create_def filterspecs_registry_def Let_def register_def initial_registry_def
      all_values_test_def)

lemma take_insert:
  "i \<le> length xs \<Longrightarrow> take (Suc i) (take i xs @ x # drop i xs) = take i xs @ [x]"
  by (simp add: min_def)

lemma drop_insert:
  "i \<le> length xs \<Longrightarrow> drop (Suc i) (take i xs @ x # drop i xs) = drop i xs"
  by (simp add: min_def)

lemma register_high:
  "field_filter_specs (register c t fac True reg) =
     take (high_priority_index reg c) (field_filter_specs reg) @ (t, fac) #
     drop (high_priority_index reg c) (field_filter_specs reg)"
  "high_priority_index (register c t fac True reg) c = Suc (high_priority_index reg c)"
  by (cases c; simp add: register_def list_insert_def)+

lemma register_low:
  "field_filter_specs (register c t fac False reg) = field_filter_specs reg @ [(t, fac)]"
  "high_priority_index (register c t fac False reg) c' = high_priority_index reg c'"
  by (induction c'; simp add: register_def split: option.splits)+

text \<open>
  As long as every registration goes through one and the same class \<open>c\<close>, the
  high-priority pairs stand in the order of their registration before the low-priority
  pairs in the order of theirs.
\<close>

lemma register_fold:
  "field_filter_specs (fold (\<lambda>(t, fac, hp) reg. register c t fac hp reg) calls reg) =
     take (high_priority_index reg c) (field_filter_specs reg)
     @ map (\<lambda>(t, fac, hp). (t, fac)) (filter (\<lambda>(t, fac, hp). hp) calls)
     @ drop (high_priority_index reg c) (field_filter_specs reg)
     @ map (\<lambda>(t, fac, hp). (t, fac)) (filter (\<lambda>(t, fac, hp). \<not> hp) calls)
   \<and> high_priority_index (fold (\<lambda>(t, fac, hp) reg. register c t fac hp reg) calls reg) c =
     high_priority_index reg c + length (filter (\<lambda>(t, fac, hp). hp) calls)"
  if "high_priority_index reg c \<le> length (field_filter_specs reg)"
  using that
proof (induction calls arbitrary: reg)
  case Nil
  show ?case by simp
next
  case (Cons x calls)
  obtain t fac hp where x: "x = (t, fac, hp)" by (cases x)
  let ?F = "\<lambda>(t, fac, hp) reg. register c t fac hp reg"
  let ?i = "high_priority_index reg c"
  let ?xs = "field_filter_specs reg"
  have step: "fold ?F (x # calls) reg = fold ?F calls (register c t fac hp reg)"
    by (simp add: x)
  show ?case
  proof (cases hp)
    case True
    have le: "high_priority_index (register c t fac True reg) c \<le>
              length (field_filter_specs (register c t fac True reg))"
      using Cons.prems by (simp add: register_high)
    have tk: "take (Suc ?i) (field_filter_specs (register c t fac True reg)) =
                take ?i ?xs @ [(t, fac)]"
      unfolding register_high by (rule take_insert [OF Cons.prems])
    have dr: "drop (Suc ?i) (field_filter_specs (register c t fac True reg)) = drop ?i ?xs"
      unfolding register_high by (rule drop_insert [OF Cons.prems])
    note ih = Cons.IH [OF le, unfolded register_high(2), unfolded tk dr]
    show ?thesis
      unfolding step True using ih by (simp add: x True)
  next
    case False
    have le: "high_priority_index (register c t fac False reg) c \<le>
              length (field_filter_specs (register c t fac False reg))"
      using Cons.prems by (simp add: register_low)
    note ih = Cons.IH [OF le, unfolded register_low]
    show ?thesis
      unfolding step False using ih Cons.prems by (simp add: x False)
  qed
qed

lemma index_initial:
  "high_priority_index initial_registry c = 0"
  by (induction c) (simp_all add: initial_registry_def)

lemma register_one_class:
  "field_filter_specs (fold (\<lambda>(t, fac, hp) reg. register c t fac hp reg) calls initial_registry) =
     map (\<lambda>(t, fac, hp). (t, fac)) (filter (\<lambda>(t, fac, hp). hp) calls)
     @ map (\<lambda>(t, fac, hp). (t, fac)) (filter (\<lambda>(t, fac, hp). \<not> hp) calls)"
  using register_fold [of initial_registry c calls]
  by (simp add: index_initial) (simp add: initial_registry_def)

section \<open>Lemmas on the choices\<close>

lemma all_values_loop_eq:
  "all_values_loop ext cl self vs inc =
     (map (\<lambda>v. \<lparr>selected = (a_lookup_val self = Some (ext_smart_unicode ext v)),
                 query_string = cl_get_query_string ext cl
                                  (Some [(a_lookup_kwarg self, PStr (ext_smart_unicode ext v))])
                                  (Some [a_lookup_kwarg_isnull self]),
                 display = ext_smart_unicode ext v\<rparr>)
        (filter (\<lambda>v. v \<noteq> PNone) vs),
      inc \<or> PNone \<in> set vs)"
  by (induction vs arbitrary: inc) (auto simp: Let_def)

section \<open>Claims\<close>

text \<open>
  C3. For every parameter dictionary \<^verbatim>\<open>self.params\<close>,
  \<^verbatim>\<open>get_query_string(new_params, remove)\<close> returns \<^verbatim>\<open>'?'\<close> followed by the urlencoding of
  the dictionary obtained from a copy of \<^verbatim>\<open>self.params\<close> by first deleting every key
  that starts with an element of \<^verbatim>\<open>remove\<close> and then, for each pair of
  \<^verbatim>\<open>new_params\<close>, deleting the key of a \<^verbatim>\<open>None\<close> and setting every other key; the
  dictionary \<^verbatim>\<open>self.params\<close> (every cell allocated before the call) is left unchanged.
  An argument left out counts as empty.
\<close>

theorem C3_get_query_string:
  assumes "get_query_string urlencode h self_params new_params remove = (h', s)"
  shows "s = ''?'' @ urlencode (spec_query_dict (cell h self_params)
                 (case new_params of None \<Rightarrow> [] | Some d \<Rightarrow> d)
                 (case remove of None \<Rightarrow> [] | Some r \<Rightarrow> r))
         \<and> (\<forall>a. a < next_free h \<longrightarrow> cell h' a = cell h a)"
proof -
  let ?np = "case new_params of None \<Rightarrow> [] | Some d \<Rightarrow> d"
  let ?rm = "case remove of None \<Rightarrow> [] | Some r \<Rightarrow> r"
  let ?h1 = "fst (dict_copy h self_params)"
  let ?p = "next_free h"
  have h': "h' = new_params_loop (remove_loop ?h1 ?p ?rm) ?p ?np"
    and s: "s = ''?'' @ urlencode (cell h' ?p)"
    using assms by (auto simp: get_query_string_def dict_copy_def Let_def)
  have copy: "cell ?h1 a = (if a = ?p then cell h self_params else cell h a)" for a
    by (simp add: dict_copy_def)
  have "cell h' ?p = spec_query_dict (cell h self_params) ?np ?rm"
    by (simp add: h' new_params_loop_cell remove_loop_cell copy spec_query_dict_def)
  moreover have "cell h' a = cell h a" if "a < next_free h" for a
    using that by (simp add: h' new_params_loop_cell remove_loop_cell copy)
  ultimately show ?thesis
    using s by simp
qed

theorem C3_get_query_string_witness:
  "snd (get_query_string example_urlencode example_heap 0
          (Some [(''a'', PStr ''b''), (''q'', PNone)]) (Some [''year''])) = ''?a=b&''
   \<and> cell (fst (get_query_string example_urlencode example_heap 0
          (Some [(''a'', PStr ''b''), (''q'', PNone)]) (Some [''year'']))) 0 =
       [(''year'', PStr ''1999''), (''year__isnull'', PStr ''True''), (''q'', PStr ''x'')]"
proof -
  obtain h' s where r: "get_query_string example_urlencode example_heap 0
      (Some [(''a'', PStr ''b''), (''q'', PNone)]) (Some [''year'']) = (h', s)"
    by (cases "get_query_string example_urlencode example_heap 0
      (Some [(''a'', PStr ''b''), (''q'', PNone)]) (Some [''year''])")
  have d: "spec_query_dict (cell example_heap 0) [(''a'', PStr ''b''), (''q'', PNone)] [''year'']
           = [(''a'', PStr ''b'')]"
    by (simp add: spec_query_dict_def example_heap_def)
  have n: "(0::nat) < next_free example_heap"
    by (simp add: example_heap_def)
  from C3_get_query_string [OF r] d n
  have "s = ''?'' @ example_urlencode [(''a'', PStr ''b'')]" and "cell h' 0 = cell example_heap 0"
    by simp_all
  then show ?thesis
    using r by (simp add: example_urlencode_def example_heap_def)
qed




text \<open>
  C4. \<^verbatim>\<open>get_query_set\<close> raises IncorrectLookupParameters whenever the final
  \<^verbatim>\<open>qs.filter(**lookup_params)\<close> raises anything, and passes on unchanged what was
  raised before that call; it raises nothing else. \<^verbatim>\<open>get_results\<close> raises
  IncorrectLookupParameters when the paginator raises InvalidPage for page
  \<^verbatim>\<open>page_num + 1\<close> and passes on any other exception of that call; in the full-result
  branch it returns.
\<close>

theorem C4_exception_translation:
  "(snd (filter_kwargs self) = Inr (qs, lookup_params) \<and>
      orm_filter orm qs (map_of lookup_params) = Inl e
      \<longrightarrow> get_query_set orm self = Inl IncorrectLookupParameters)
   \<and> (snd (filter_kwargs self) = Inl e \<longrightarrow> get_query_set orm self = Inl e)
   \<and> (get_query_set orm self = Inl e \<longrightarrow>
        snd (filter_kwargs self) = Inl e \<or>
        (e = IncorrectLookupParameters \<and>
         (\<exists>qs' lp e'. snd (filter_kwargs self) = Inr (qs', lp) \<and>
                      orm_filter orm qs' (map_of lp) = Inl e')))
   \<and> (\<not> ((show_all self \<and>
            pg_count (get_paginator (model_admin self) (query_set self) (list_per_page self))
              \<le> MAX_SHOW_ALL_ALLOWED) \<or>
           \<not> pg_count (get_paginator (model_admin self) (query_set self) (list_per_page self))
              > list_per_page self) \<and>
       pg_page (get_paginator (model_admin self) (query_set self) (list_per_page self))
         (page_num self + 1) = Inl e
       \<longrightarrow> get_results orm self =
             Inl (if isinstance_InvalidPage e then IncorrectLookupParameters else e))
   \<and> ((show_all self \<and>
         pg_count (get_paginator (model_admin self) (query_set self) (list_per_page self))
           \<le> MAX_SHOW_ALL_ALLOWED) \<or>
        \<not> pg_count (get_paginator (model_admin self) (query_set self) (list_per_page self))
           > list_per_page self
       \<longrightarrow> (\<exists>r. get_results orm self = Inr r))"
proof -
  have a: "get_query_set orm self = Inl IncorrectLookupParameters"
    if "snd (filter_kwargs self) = Inr (qs, lookup_params)"
      "orm_filter orm qs (map_of lookup_params) = Inl e"
    using that by (simp add: get_query_set_def before_search_def)
  have b: "get_query_set orm self = Inl e" if "snd (filter_kwargs self) = Inl e"
    using that by (simp add: get_query_set_def before_search_def)
  have c: "snd (filter_kwargs self) = Inl e \<or>
        (e = IncorrectLookupParameters \<and>
         (\<exists>qs' lp e'. snd (filter_kwargs self) = Inr (qs', lp) \<and>
                      orm_filter orm qs' (map_of lp) = Inl e'))"
    if "get_query_set orm self = Inl e"
  proof (cases "before_search orm self")
    case (Inl e0)
    then have "e0 = e" using that by (simp add: get_query_set_def)
    with Inl show ?thesis
      by (auto simp: before_search_def Let_def split: sum.splits prod.splits)
  next
    case (Inr q0)
    then show ?thesis
      using that apply_search_Inr [of orm self q0] by (auto simp: get_query_set_def)
  qed
  show ?thesis
    using a b c
    by (auto simp: get_results_def Let_def split: sum.splits)
qed

theorem C4_exception_translation_witness:
  "get_query_set example_orm (example_cl\<lparr>cl_params := [(''bad'', ''1'')]\<rparr>) =
     Inl IncorrectLookupParameters
   \<and> get_results example_orm (example_cl\<lparr>page_num := 7\<rparr>) = Inl IncorrectLookupParameters
   \<and> (\<exists>r. get_results example_orm (example_cl\<lparr>list_per_page := 10\<rparr>) = Inr r)"
proof -
  let ?bad = "example_cl\<lparr>cl_params := [(''bad'', ''1'')]\<rparr>"
  have k: "snd (filter_kwargs ?bad) = Inr ([], [(Text ''bad'', PStr ''1'')])"
    by code_simp
  have f: "orm_filter example_orm [] (map_of [(Text ''bad'', PStr ''1'')]) =
           Inl (OtherError ''FieldError'')"
    by (simp add: example_orm_def)
  have 1: "get_query_set example_orm ?bad = Inl IncorrectLookupParameters"
    using C4_exception_translation [of ?bad "[]" "[(Text ''bad'', PStr ''1'')]" example_orm
        "OtherError ''FieldError''"] k f
    by blast
  have 2: "get_results example_orm (example_cl\<lparr>page_num := 7\<rparr>) = Inl IncorrectLookupParameters"
    using C4_exception_translation [of "example_cl\<lparr>page_num := 7\<rparr>" "[]" "[]" example_orm EmptyPage]
    by (simp add: example_cl_def example_admin_def MAX_SHOW_ALL_ALLOWED_def)
  have 3: "\<exists>r. get_results example_orm (example_cl\<lparr>list_per_page := 10\<rparr>) = Inr r"
    using C4_exception_translation [of "example_cl\<lparr>list_per_page := 10\<rparr>" "[]" "[]" example_orm
        EmptyPage]
    by (simp add: example_cl_def example_admin_def MAX_SHOW_ALL_ALLOWED_def)
  from 1 2 3 show ?thesis by blast
qed


text \<open>
  C7. When \<^verbatim>\<open>search_fields\<close> and the query are both non-empty, \<^verbatim>\<open>get_query_set\<close> applies
  one \<^verbatim>\<open>filter\<close> per whitespace-separated word of the query, each by the left-nested
  \<^verbatim>\<open>or\<close> of one \<^verbatim>\<open>Q\<close> object per search field; a field name starting with \<^verbatim>\<open>^\<close> gives an
  \<^verbatim>\<open>__istartswith\<close> lookup, \<^verbatim>\<open>=\<close> gives \<^verbatim>\<open>__iexact\<close>, \<^verbatim>\<open>@\<close> gives \<^verbatim>\<open>__search\<close> and any
  other name \<^verbatim>\<open>__icontains\<close>; \<^verbatim>\<open>distinct()\<close> is applied, once and last, if and only if
  a search field name contains \<^verbatim>\<open>__\<close>.
\<close>

theorem C7_search:
  assumes "search_fields self \<noteq> []" and "cl_query self \<noteq> []"
    and "before_search orm self = Inr qs0"
  shows "get_query_set orm self =
           Inr ((if \<exists>f \<in> set (search_fields self). contains ''__'' f then orm_distinct orm
                 else (\<lambda>qs. qs))
                  (fold (\<lambda>w qs. orm_filter_q orm qs
                           (foldl Or (Q (construct_search (hd (search_fields self))) w)
                              (map (\<lambda>f. Q (construct_search f) w) (tl (search_fields self)))))
                     (split_ws (cl_query self)) qs0))
         \<and> construct_search (CHR ''^'' # n) = n @ ''__istartswith''
         \<and> construct_search (CHR ''='' # n) = n @ ''__iexact''
         \<and> construct_search (CHR ''@'' # n) = n @ ''__search''
         \<and> (\<not> startswith m ''^'' \<and> \<not> startswith m ''='' \<and> \<not> startswith m ''@''
              \<longrightarrow> construct_search m = m @ ''__icontains'')"
  using assms
  by (simp add: get_query_set_def apply_search_def search_loop_Inr distinct_loop_eq
      construct_search_def startswith_def)

theorem C7_search_witness:
  "get_query_set example_orm example_cl =
     Inr [''filter'', ''order_by'',
          ''(title__istartswith=django | author__name__icontains=django)'',
          ''(title__istartswith=book | author__name__icontains=book)'',
          ''distinct'']"
proof -
  have b: "before_search example_orm example_cl = Inr [''filter'', ''order_by'']"
    by code_simp
  have s: "search_fields example_cl \<noteq> []" and q: "cl_query example_cl \<noteq> []"
    by (simp_all add: example_cl_def)
  have r: "(if \<exists>f \<in> set (search_fields example_cl). contains ''__'' f
            then orm_distinct example_orm else (\<lambda>qs. qs))
             (fold (\<lambda>w qs. orm_filter_q example_orm qs
                      (foldl Or (Q (construct_search (hd (search_fields example_cl))) w)
                         (map (\<lambda>f. Q (construct_search f) w) (tl (search_fields example_cl)))))
                (split_ws (cl_query example_cl)) [''filter'', ''order_by'']) =
           [''filter'', ''order_by'',
            ''(title__istartswith=django | author__name__icontains=django)'',
            ''(title__istartswith=book | author__name__icontains=book)'',
            ''distinct'']"
    by code_simp
  from C7_search [OF s q b, of "[]" "[]"] show ?thesis
    by (simp only: r)
qed

text \<open>
  C10. The \<^verbatim>\<open>lookup_allowed\<close> check of \<^verbatim>\<open>get_query_set\<close> runs once per filter spec and
  always tests the loop variable \<^verbatim>\<open>key\<close> left by the loop over the lookup parameters
  (the key iterated last, the empty string when there was none), whatever the filter
  spec; with a non-empty \<^verbatim>\<open>filter_specs\<close> and a key that is not allowed the first check
  raises SuspiciousOperation. With an empty \<^verbatim>\<open>filter_specs\<close> list no check is made and
  \<^verbatim>\<open>get_query_set\<close> never raises SuspiciousOperation.
\<close>

theorem C10_lookup_allowed_key:
  "(filter_specs self = [] \<longrightarrow>
      get_query_set orm self \<noteq> Inl (SuspiciousOperation msg) \<and> fst (filter_kwargs self) = [])
   \<and> set (fst (filter_kwargs self)) \<subseteq> {last_key self}
   \<and> length (fst (filter_kwargs self)) \<le> length (filter_specs self)
   \<and> (snd (filter_kwargs self) = Inr st \<longrightarrow>
        fst (filter_kwargs self) = replicate (length (filter_specs self)) (last_key self))
   \<and> (filter_specs self = fs # rest \<and> fs_get_query_set fs (root_query_set self) = Inr r \<and>
       \<not> lookup_allowed (model_admin self) (last_key self) \<longrightarrow>
        get_query_set orm self =
          Inl (SuspiciousOperation (''Filtering by '' @ key_text (last_key self) @ '' not allowed'')))
   \<and> last_key self =
        (case filter (\<lambda>(k, v). k \<notin> set control_vars) (cl_params self) of
           [] \<Rightarrow> Text ''''
         | kv # kvs \<Rightarrow> Text (fst (last (kv # kvs))))"
proof -
  have a: "get_query_set orm self \<noteq> Inl (SuspiciousOperation msg) \<and> fst (filter_kwargs self) = []"
    if "filter_specs self = []"
  proof -
    have k: "filter_kwargs self = ([], Inr (root_query_set self, prepared_params self))"
      using that by (simp add: filter_kwargs_def)
    show ?thesis
      by (auto simp: k get_query_set_def before_search_def Let_def apply_search_not_Inl
          split: sum.splits)
  qed
  have b: "get_query_set orm self =
          Inl (SuspiciousOperation (''Filtering by '' @ key_text (last_key self) @ '' not allowed''))"
    if "filter_specs self = fs # rest" "fs_get_query_set fs (root_query_set self) = Inr r"
      "\<not> lookup_allowed (model_admin self) (last_key self)"
    using that by (simp add: get_query_set_def before_search_def filter_kwargs_def)
  have c: "last_key self =
        (case filter (\<lambda>(k, v). k \<notin> set control_vars) (cl_params self) of
           [] \<Rightarrow> Text ''''
         | kv # kvs \<Rightarrow> Text (fst (last (kv # kvs))))"
    by (simp add: last_key_def lookup_items_eq split: list.splits)
  show ?thesis
    using a b c loop_calls [of "lookup_allowed (model_admin self)" "last_key self"
        "filter_specs self" "(root_query_set self, prepared_params self)"]
    unfolding filter_kwargs_def by blast
qed

theorem C10_lookup_allowed_key_witness:
  "get_query_set example_orm (example_cl\<lparr>cl_params := [(''secret'', ''1'')]\<rparr>) \<noteq>
     Inl (SuspiciousOperation ''Filtering by secret not allowed'')
   \<and> get_query_set example_orm
        (example_cl\<lparr>cl_params := [(''secret'', ''1'')], filter_specs := [FilterSpec]\<rparr>) =
      Inl (SuspiciousOperation ''Filtering by secret not allowed'')
   \<and> fst (filter_kwargs (example_cl\<lparr>filter_specs := [FilterSpec, FilterSpec]\<rparr>)) =
      [Text ''year__isnull'', Text ''year__isnull'']"
proof -
  let ?c1 = "example_cl\<lparr>cl_params := [(''secret'', ''1'')]\<rparr>"
  let ?c2 = "example_cl\<lparr>cl_params := [(''secret'', ''1'')], filter_specs := [FilterSpec]\<rparr>"
  let ?c3 = "example_cl\<lparr>filter_specs := [FilterSpec, FilterSpec]\<rparr>"
  have e1: "filter_specs ?c1 = []"
    by (simp add: example_cl_def)
  have 1: "get_query_set example_orm ?c1 \<noteq>
      Inl (SuspiciousOperation ''Filtering by secret not allowed'')"
    using C10_lookup_allowed_key [of ?c1 example_orm "''Filtering by secret not allowed''"] e1
    by blast
  have k2: "last_key ?c2 = Text ''secret''"
    by code_simp
  have e2: "filter_specs ?c2 = FilterSpec # []"
    "fs_get_query_set FilterSpec (root_query_set ?c2) = Inr ResFalse"
    "\<not> lookup_allowed (model_admin ?c2) (Text ''secret'')"
    by (simp_all add: example_cl_def example_admin_def FilterSpec_def)
  have 2: "get_query_set example_orm ?c2 =
      Inl (SuspiciousOperation ''Filtering by secret not allowed'')"
    using C10_lookup_allowed_key [of ?c2 example_orm "[]" "([], [])" FilterSpec "[]" ResFalse] e2
    by (simp add: k2)
  have k3: "last_key ?c3 = Text ''year__isnull''"
    by code_simp
  have e3: "snd (filter_kwargs ?c3) =
      Inr ([], [(Text ''tags__in'', PList [''a'', ''b'']), (Text ''year__isnull'', PBool True)])"
    by code_simp
  have l3: "length (filter_specs ?c3) = 2"
    by (simp add: example_cl_def)
  have 3: "fst (filter_kwargs ?c3) = [Text ''year__isnull'', Text ''year__isnull'']"
    using C10_lookup_allowed_key [of ?c3 example_orm "[]"
        "([], [(Text ''tags__in'', PList [''a'', ''b'']), (Text ''year__isnull'', PBool True)])"
        FilterSpec "[]" ResFalse] e3
    by (simp add: k3 l3 numeral_2_eq_2)
  from 1 2 3 show ?thesis by blast
qed


text \<open>
  C8. Let \<open>fs\<close> be a filter spec of the change list, reached after the specs \<open>pre\<close>
  with the working query set and lookup parameters \<open>st\<close>, and followed by the specs
  \<open>post\<close>. When its result is a query set, \<^verbatim>\<open>get_query_set\<close> goes on with that query
  set and with the lookup parameters from which the spec's \<^verbatim>\<open>consumed_params\<close> are
  deleted; when its result is \<^verbatim>\<open>None\<close> or \<^verbatim>\<open>False\<close> it goes on with \<open>st\<close> unchanged.
  What \<^verbatim>\<open>get_query_set\<close> returns is what the remaining specs, \<^verbatim>\<open>qs.filter\<close>,
  \<^verbatim>\<open>select_related\<close>, the ordering and the search make of that state. The base
  \<^verbatim>\<open>FilterSpec\<close> returns \<^verbatim>\<open>False\<close> and consumes nothing, and a change list whose specs
  all return \<^verbatim>\<open>None\<close> or \<^verbatim>\<open>False\<close> gives the result of the change list without filter
  specs.
\<close>

theorem C8_filter_spec_frame:
  assumes "filter_specs self = pre @ fs # post"
    and "snd (filter_specs_loop (lookup_allowed (model_admin self)) (last_key self) pre
               (root_query_set self, prepared_params self)) = Inr st"
    and "lookup_allowed (model_admin self) (last_key self)"
    and "fs_get_query_set fs (fst st) = Inr r"
  shows "(let st' = (case r of
                      ResQuerySet new \<Rightarrow>
                        (new, fold AList.delete (fs_consumed_params fs) (snd st))
                    | ResNone \<Rightarrow> st
                    | ResFalse \<Rightarrow> st)
          in snd (filter_kwargs self) =
               snd (filter_specs_loop (lookup_allowed (model_admin self)) (last_key self) post st')
             \<and> get_query_set orm self =
               (case snd (filter_specs_loop (lookup_allowed (model_admin self)) (last_key self)
                            post st') of
                  Inl e \<Rightarrow> Inl e
                | Inr (qs, lookup_params) \<Rightarrow>
                    (case orm_filter orm qs (map_of lookup_params) of
                       Inl e \<Rightarrow> Inl IncorrectLookupParameters
                     | Inr qs \<Rightarrow>
                         apply_search orm self
                           (let qs = (if \<not> query_select_related orm qs
                                      then (if list_select_related self
                                            then orm_select_related orm qs
                                            else select_related_loop orm (lookup_opts self)
                                                   (list_display self) qs)
                                      else qs)
                            in if cl_ordering self \<noteq> [] then orm_order_by orm qs (cl_ordering self)
                               else qs))))
     \<and> map_of (fold AList.delete (fs_consumed_params fs) (snd st)) =
         (\<lambda>k. if k \<in> set (fs_consumed_params fs) then None else map_of (snd st) k)
     \<and> fs_get_query_set FilterSpec qs0 = Inr ResFalse
     \<and> fs_consumed_params (FilterSpec :: 'a filter_spec) = []
     \<and> ((\<forall>x \<in> set (filter_specs self).
            \<forall>q. fs_get_query_set x q = Inr ResNone \<or> fs_get_query_set x q = Inr ResFalse) \<longrightarrow>
          snd (filter_kwargs self) = Inr (root_query_set self, prepared_params self) \<and>
          get_query_set orm self = get_query_set orm (self\<lparr>filter_specs := []\<rparr>))"
proof -
  let ?st' = "case r of
                ResQuerySet new \<Rightarrow> (new, fold AList.delete (fs_consumed_params fs) (snd st))
              | ResNone \<Rightarrow> st
              | ResFalse \<Rightarrow> st"
  have c: "consume fs r st = ?st'"
    by (simp add: consume_def)
  have k: "snd (filter_kwargs self) =
           snd (filter_specs_loop (lookup_allowed (model_admin self)) (last_key self) post ?st')"
    unfolding filter_kwargs_def assms(1) c [symmetric]
    using loop_split [of "lookup_allowed (model_admin self)" "last_key self" pre
        "(root_query_set self, prepared_params self)" st fs r post] assms(2) assms(3) assms(4)
    by blast
  have g: "get_query_set orm self =
               (case snd (filter_specs_loop (lookup_allowed (model_admin self)) (last_key self)
                            post ?st') of
                  Inl e \<Rightarrow> Inl e
                | Inr (qs, lookup_params) \<Rightarrow>
                    (case orm_filter orm qs (map_of lookup_params) of
                       Inl e \<Rightarrow> Inl IncorrectLookupParameters
                     | Inr qs \<Rightarrow>
                         apply_search orm self
                           (let qs = (if \<not> query_select_related orm qs
                                      then (if list_select_related self
                                            then orm_select_related orm qs
                                            else select_related_loop orm (lookup_opts self)
                                                   (list_display self) qs)
                                      else qs)
                            in if cl_ordering self \<noteq> [] then orm_order_by orm qs (cl_ordering self)
                               else qs)))"
    by (simp only: get_query_set_kwargs [of orm self] k)
  have m: "map_of (fold AList.delete (fs_consumed_params fs) (snd st)) =
         (\<lambda>k. if k \<in> set (fs_consumed_params fs) then None else map_of (snd st) k)"
    by (simp add: map_of_fold_delete fun_eq_iff)
  have u: "snd (filter_kwargs self) = Inr (root_query_set self, prepared_params self) \<and>
          get_query_set orm self = get_query_set orm (self\<lparr>filter_specs := []\<rparr>)"
    if "\<forall>x \<in> set (filter_specs self).
            \<forall>q. fs_get_query_set x q = Inr ResNone \<or> fs_get_query_set x q = Inr ResFalse"
  proof -
    have 1: "snd (filter_kwargs self) = Inr (root_query_set self, prepared_params self)"
      unfolding filter_kwargs_def
      using loop_unchanged [of "lookup_allowed (model_admin self)" "last_key self"
          "filter_specs self" "(root_query_set self, prepared_params self)"] assms(3) that
      by blast
    have 2: "snd (filter_kwargs (self\<lparr>filter_specs := []\<rparr>)) =
             Inr (root_query_set self, prepared_params self)"
      by (simp add: filter_kwargs_def prepared_params_def lookup_items_def)
    have 3: "apply_search orm (self\<lparr>filter_specs := []\<rparr>) = apply_search orm self"
      by (simp add: fun_eq_iff apply_search_def cong: sum.case_cong)
    have "get_query_set orm self = get_query_set orm (self\<lparr>filter_specs := []\<rparr>)"
      unfolding get_query_set_kwargs 1 2 3 by (simp add: Let_def cong: sum.case_cong if_cong)
    with 1 show ?thesis by simp
  qed
  have A: "(let st' = (case r of
                      ResQuerySet new \<Rightarrow>
                        (new, fold AList.delete (fs_consumed_params fs) (snd st))
                    | ResNone \<Rightarrow> st
                    | ResFalse \<Rightarrow> st)
          in snd (filter_kwargs self) =
               snd (filter_specs_loop (lookup_allowed (model_admin self)) (last_key self) post st')
             \<and> get_query_set orm self =
               (case snd (filter_specs_loop (lookup_allowed (model_admin self)) (last_key self)
                            post st') of
                  Inl e \<Rightarrow> Inl e
                | Inr (qs, lookup_params) \<Rightarrow>
                    (case orm_filter orm qs (map_of lookup_params) of
                       Inl e \<Rightarrow> Inl IncorrectLookupParameters
                     | Inr qs \<Rightarrow>
                         apply_search orm self
                           (let qs = (if \<not> query_select_related orm qs
                                      then (if list_select_related self
                                            then orm_select_related orm qs
                                            else select_related_loop orm (lookup_opts self)
                                                   (list_display self) qs)
                                      else qs)
                            in if cl_ordering self \<noteq> [] then orm_order_by orm qs (cl_ordering self)
                               else qs))))"
    unfolding Let_def using k g [unfolded Let_def] by (rule conjI)
  have F: "fs_get_query_set FilterSpec qs0 = Inr ResFalse"
    "fs_consumed_params (FilterSpec :: 'a filter_spec) = []"
    by (simp_all add: FilterSpec_def)
  from A m F u show ?thesis
    by blast
qed

theorem C8_filter_spec_frame_witness:
  "snd (filter_kwargs
          (example_cl\<lparr>cl_params := [(''about_django'', ''1''), (''year'', ''2002'')],
                       filter_specs := [FilterSpec, DjangoBookFilterSpec]\<rparr>)) =
     Inr ([''title__icontains=django''], [(Text ''year'', PStr ''2002'')])
   \<and> get_query_set example_orm
         (example_cl\<lparr>cl_params := [(''about_django'', ''1''), (''year'', ''2002'')],
                      filter_specs := [FilterSpec, DjangoBookFilterSpec]\<rparr>) =
       Inr [''title__icontains=django'', ''filter'', ''order_by'',
            ''(title__istartswith=django | author__name__icontains=django)'',
            ''(title__istartswith=book | author__name__icontains=book)'', ''distinct'']
   \<and> get_query_set example_orm
         (example_cl\<lparr>cl_params := [(''about_django'', ''1''), (''year'', ''2002'')],
                      filter_specs := [FilterSpec, FilterSpec]\<rparr>) =
       get_query_set example_orm
         (example_cl\<lparr>cl_params := [(''about_django'', ''1''), (''year'', ''2002'')],
                      filter_specs := []\<rparr>)"
proof -
  let ?c = "example_cl\<lparr>cl_params := [(''about_django'', ''1''), (''year'', ''2002'')],
                        filter_specs := [FilterSpec, DjangoBookFilterSpec]\<rparr>"
  let ?d = "example_cl\<lparr>cl_params := [(''about_django'', ''1''), (''year'', ''2002'')],
                        filter_specs := [FilterSpec, FilterSpec]\<rparr>"
  let ?st = "([] :: string list,
              [(Text ''about_django'', PStr ''1''), (Text ''year'', PStr ''2002'')])"
  have p: "prepared_params ?c =
             [(Text ''about_django'', PStr ''1''), (Text ''year'', PStr ''2002'')]"
    "prepared_params ?d =
             [(Text ''about_django'', PStr ''1''), (Text ''year'', PStr ''2002'')]"
    by code_simp+
  have l: "last_key ?c = Text ''year''" "last_key ?d = Text ''year''"
    by code_simp+
  have h1: "filter_specs ?c = [FilterSpec] @ DjangoBookFilterSpec # []"
    by simp
  have h2: "snd (filter_specs_loop (lookup_allowed (model_admin ?c)) (last_key ?c) [FilterSpec]
                   (root_query_set ?c, prepared_params ?c)) = Inr ?st"
    unfolding p l by (simp add: example_cl_def example_admin_def FilterSpec_def consume_def)
  have h3: "lookup_allowed (model_admin ?c) (last_key ?c)"
    unfolding l by (simp add: example_cl_def example_admin_def)
  have h4: "fs_get_query_set DjangoBookFilterSpec (fst ?st) =
              Inr (ResQuerySet [''title__icontains=django''])"
    by (simp add: DjangoBookFilterSpec_def)
  have h5: "lookup_allowed (model_admin ?d) (last_key ?d)"
    unfolding l by (simp add: example_cl_def example_admin_def)
  have h6: "filter_specs ?d = [FilterSpec] @ FilterSpec # []"
    by simp
  have h7: "snd (filter_specs_loop (lookup_allowed (model_admin ?d)) (last_key ?d) [FilterSpec]
                   (root_query_set ?d, prepared_params ?d)) = Inr ?st"
    unfolding p l by (simp add: example_cl_def example_admin_def FilterSpec_def consume_def)
  have h8: "fs_get_query_set FilterSpec (fst ?st) = Inr ResFalse"
    by (simp add: FilterSpec_def)
  have d: "fold AList.delete (fs_consumed_params (DjangoBookFilterSpec :: string list filter_spec))
             [(Text ''about_django'', PStr ''1''), (Text ''year'', PStr ''2002'')] =
           [(Text ''year'', PStr ''2002'')]"
    by code_simp
  from C8_filter_spec_frame [OF h1 h2 h3 h4, where orm = example_orm and ?qs0.0 = "[]", THEN conjunct1]
  have 1: "snd (filter_kwargs ?c) =
             Inr ([''title__icontains=django''], [(Text ''year'', PStr ''2002'')])"
    by (simp add: Let_def d)
  have 2: "get_query_set example_orm ?c =
       Inr [''title__icontains=django'', ''filter'', ''order_by'',
            ''(title__istartswith=django | author__name__icontains=django)'',
            ''(title__istartswith=book | author__name__icontains=book)'', ''distinct'']"
    by code_simp
  have a: "\<forall>x \<in> set (filter_specs ?d).
             \<forall>q. fs_get_query_set x q = Inr ResNone \<or> fs_get_query_set x q = Inr ResFalse"
    by (simp add: FilterSpec_def)
  have 3: "get_query_set example_orm ?d = get_query_set example_orm (?d\<lparr>filter_specs := []\<rparr>)"
    by (rule C8_filter_spec_frame [OF h6 h7 h5 h8, where orm = example_orm and ?qs0.0 = "[]", THEN conjunct2,
          THEN conjunct2, THEN conjunct2, THEN conjunct2, THEN mp, OF a, THEN conjunct2])
  from 1 2 3 show ?thesis
    by simp
qed

text \<open>
  C5 (amended). \<^verbatim>\<open>get_ordering\<close> returns the model admin's ordering when it is truthy,
  else the model's default ordering when truthy, else the one-element list of \<^verbatim>\<open>-\<close>
  followed by the name of the primary key; when the \<^verbatim>\<open>o\<close> parameter is present the
  result is instead, for each comma-separated entry in order, the text before the index
  (empty, or \<^verbatim>\<open>-\<close> when the entry holds one) followed by the ordering name of the
  \<^verbatim>\<open>list_display\<close> column at the entry's index: the field's name for a model field, and
  otherwise the \<^verbatim>\<open>admin_order_field\<close> of the callable, of the model admin's attribute of
  that name or, when the model admin has none, of the model's attribute. Entries whose
  index is not a number or out of range, and columns without such a name, are skipped.
\<close>

theorem C5_get_ordering:
  "(map_of (cl_params self) ORDER_VAR = None \<longrightarrow>
      get_ordering py_int self =
        (if ma_ordering (model_admin self) \<noteq> None \<and> ma_ordering (model_admin self) \<noteq> Some []
         then the (ma_ordering (model_admin self))
         else if opts_ordering (lookup_opts self) \<noteq> [] then opts_ordering (lookup_opts self)
         else [''-'' @ pk_name (lookup_opts self)]))
   \<and> (map_of (cl_params self) ORDER_VAR = Some o_param \<longrightarrow>
        get_ordering py_int self =
          List.map_filter (order_entry py_int self) (split_on CHR '','' o_param))
   \<and> (CHR ''-'' \<notin> set idx \<and> py_int idx = Some i \<and>
       list_get (list_display self) i = Some col \<and> order_field_name self col = Some n \<longrightarrow>
        order_entry py_int self idx = Some n \<and>
        order_entry py_int self (h @ ''-'' @ idx) = Some (''-'' @ n))
   \<and> (CHR ''-'' \<notin> set idx \<and>
       (py_int idx = None \<or>
        (\<exists>j. py_int idx = Some j \<and>
             (list_get (list_display self) j = None \<or>
              (\<exists>c. list_get (list_display self) j = Some c \<and> order_field_name self c = None))))
       \<longrightarrow> order_entry py_int self idx = None \<and> order_entry py_int self (h @ ''-'' @ idx) = None)
   \<and> (get_field (lookup_opts self) m = Some f \<longrightarrow> order_field_name self (Name m) = Some m)
   \<and> (get_field (lookup_opts self) m = None \<longrightarrow>
        order_field_name self (Name m) =
          (case ma_getattr (model_admin self) m of
             Some a \<Rightarrow> admin_order_field a
           | None \<Rightarrow> (case model_getattr self m of
                        Some a \<Rightarrow> admin_order_field a
                      | None \<Rightarrow> None)))
   \<and> order_field_name self (Callable a) = admin_order_field a"
proof -
  have d: "get_ordering py_int self =
        (if ma_ordering (model_admin self) \<noteq> None \<and> ma_ordering (model_admin self) \<noteq> Some []
         then the (ma_ordering (model_admin self))
         else if opts_ordering (lookup_opts self) \<noteq> [] then opts_ordering (lookup_opts self)
         else [''-'' @ pk_name (lookup_opts self)])"
    if "map_of (cl_params self) ORDER_VAR = None"
    using that by (auto simp: get_ordering_def Let_def split: option.splits)
  have o: "get_ordering py_int self =
          List.map_filter (order_entry py_int self) (split_on CHR '','' o_param)"
    if "map_of (cl_params self) ORDER_VAR = Some o_param"
    using that by (simp add: get_ordering_def Let_def fold_append_map_filter)
  have r1: "rpartition idx CHR ''-'' = ([], [], idx)"
    and r2: "rpartition (h @ CHR ''-'' # idx) CHR ''-'' = (h, [CHR ''-''], idx)"
    if "CHR ''-'' \<notin> set idx"
    using that rpartition_found [of "CHR ''-''" idx h] by (simp_all add: rpartition_missing)
  have e1: "order_entry py_int self idx = Some n \<and>
        order_entry py_int self (h @ ''-'' @ idx) = Some (''-'' @ n)"
    if "CHR ''-'' \<notin> set idx" "py_int idx = Some i"
       "list_get (list_display self) i = Some col" "order_field_name self col = Some n"
    using that by (simp add: order_entry_def r1 r2)
  have e2: "order_entry py_int self idx = None \<and> order_entry py_int self (h @ ''-'' @ idx) = None"
    if "CHR ''-'' \<notin> set idx"
       "py_int idx = None \<or>
        (\<exists>j. py_int idx = Some j \<and>
             (list_get (list_display self) j = None \<or>
              (\<exists>c. list_get (list_display self) j = Some c \<and> order_field_name self c = None)))"
    using that by (auto simp: order_entry_def r1 r2)
  have f1: "order_field_name self (Name m) = Some m" if "get_field (lookup_opts self) m = Some f"
    using that get_field_name [OF that] by (simp add: order_field_name_def)
  have f2: "order_field_name self (Name m) =
          (case ma_getattr (model_admin self) m of
             Some a \<Rightarrow> admin_order_field a
           | None \<Rightarrow> (case model_getattr self m of
                        Some a \<Rightarrow> admin_order_field a
                      | None \<Rightarrow> None))"
    if "get_field (lookup_opts self) m = None"
    using that by (simp add: order_field_name_def split: option.splits)
  have f3: "order_field_name self (Callable a) = admin_order_field a"
    by (simp add: order_field_name_def)
  show ?thesis
    using d o e1 e2 f1 f2 f3 by blast
qed

text \<open>
  The claim as stated promises the name of the column. For a column that is not a model
  field the code appends its \<^verbatim>\<open>admin_order_field\<close>: column 1, \<^verbatim>\<open>full_name\<close>, is ordered
  by \<^verbatim>\<open>last_name\<close>.
\<close>

theorem C5_get_ordering_counterexample:
  "list_get (list_display (example_cl\<lparr>cl_params := [(''o'', ''-1,0,7,x'')]\<rparr>)) 1 =
     Some (Name ''full_name'')
   \<and> get_ordering example_int (example_cl\<lparr>cl_params := [(''o'', ''-1,0,7,x'')]\<rparr>) =
       [''-last_name'', ''title'']
   \<and> get_ordering example_int (example_cl\<lparr>cl_params := [(''o'', ''-1,0,7,x'')]\<rparr>) \<noteq>
       [''-full_name'', ''title'']"
  by code_simp

theorem C5_get_ordering_witness:
  "get_ordering example_int (example_cl\<lparr>cl_params := [(''o'', ''-1,0,7,x'')]\<rparr>) =
     [''-last_name'', ''title'']
   \<and> get_ordering example_int example_cl = [''-id'']"
proof -
  let ?c = "example_cl\<lparr>cl_params := [(''o'', ''-1,0,7,x'')]\<rparr>"
  have p: "map_of (cl_params ?c) ORDER_VAR = Some ''-1,0,7,x''"
    by (simp add: ORDER_VAR_def)
  have s: "split_on CHR '','' ''-1,0,7,x'' = [''-1'', ''0'', ''7'', ''x'']"
    by simp
  have n1: "CHR ''-'' \<notin> set ''1''" "example_int ''1'' = Some 1"
      "list_get (list_display ?c) 1 = Some (Name ''full_name'')"
      "order_field_name ?c (Name ''full_name'') = Some ''last_name''"
    and n0: "CHR ''-'' \<notin> set ''0''" "example_int ''0'' = Some 0"
      "list_get (list_display ?c) 0 = Some (Name ''title'')"
      "order_field_name ?c (Name ''title'') = Some ''title''"
    and n7: "CHR ''-'' \<notin> set ''7''" "example_int ''7'' = Some 7"
      "list_get (list_display ?c) 7 = None"
    and nx: "CHR ''-'' \<notin> set ''x''" "example_int ''x'' = None"
    by code_simp+
  have a: "order_entry example_int ?c ''-1'' = Some ''-last_name''"
    using C5_get_ordering [where self = ?c and py_int = example_int and idx = "''1''" and i = 1
        and col = "Name ''full_name''" and n = "''last_name''" and h = "[]"] n1
    by simp
  have b: "order_entry example_int ?c ''0'' = Some ''title''"
    using C5_get_ordering [where self = ?c and py_int = example_int and idx = "''0''" and i = 0
        and col = "Name ''title''" and n = "''title''" and h = "[]"] n0
    by simp
  have c: "order_entry example_int ?c ''7'' = None"
    using C5_get_ordering [where self = ?c and py_int = example_int and idx = "''7''" and h = "[]"] n7
    by simp
  have d: "order_entry example_int ?c ''x'' = None"
    using C5_get_ordering [where self = ?c and py_int = example_int and idx = "''x''" and h = "[]"] nx
    by simp
  have 1: "get_ordering example_int ?c = [''-last_name'', ''title'']"
    using C5_get_ordering [where self = ?c and py_int = example_int and o_param = "''-1,0,7,x''"] p
    by (simp add: s a b c d List.map_filter_simps)
  have q: "map_of (cl_params example_cl) ORDER_VAR = None"
    by (simp add: example_cl_def ORDER_VAR_def)
  have 2: "get_ordering example_int example_cl = [''-id'']"
    using C5_get_ordering [where self = example_cl and py_int = example_int] q
    by (simp add: example_cl_def example_admin_def example_opts_def)
  from 1 2 show ?thesis by blast
qed

text \<open>
  C1 (amended). For every request whose parameter names are ASCII, \<^verbatim>\<open>get_query_set\<close>
  derives the lookup parameters from a copy of \<^verbatim>\<open>self.params\<close> by deleting the control
  parameters \<^verbatim>\<open>all\<close>, \<^verbatim>\<open>o\<close>, \<^verbatim>\<open>ot\<close>, \<^verbatim>\<open>q\<close> and \<^verbatim>\<open>pop\<close>, replacing the value of
  every key ending in \<^verbatim>\<open>__in\<close> by the list of its comma-separated parts and the value of
  every key ending in \<^verbatim>\<open>__isnull\<close> by \<^verbatim>\<open>False\<close> when its lower case is empty or
  \<^verbatim>\<open>false\<close> and by \<^verbatim>\<open>True\<close> otherwise. What is passed to \<^verbatim>\<open>qs.filter\<close>, when the loop over
  the filter specs raises nothing, is that dictionary without the parameters consumed
  by the filter specs whose result replaced the query set; \<^verbatim>\<open>get_query_set\<close> raises
  IncorrectLookupParameters from that call exactly when it raises. With no filter spec
  it is the dictionary itself.
\<close>

theorem C1_lookup_params:
  assumes "distinct (map fst (cl_params self))"
    and "list_all (\<lambda>(k, v). is_ascii k) (cl_params self)"
  shows "map_of (prepared_params self) = spec_lookup_params (cl_params self)
     \<and> (snd (filter_kwargs self) = Inr (qs, kwargs) \<longrightarrow>
          map_of kwargs =
            (\<lambda>k. if k \<in> set (consumed_keys (filter_specs self) (root_query_set self)) then None
                 else spec_lookup_params (cl_params self) k) \<and>
          (before_search orm self = Inl IncorrectLookupParameters) =
            (\<exists>e. orm_filter orm qs (map_of kwargs) = Inl e))
     \<and> (filter_specs self = [] \<longrightarrow>
          snd (filter_kwargs self) = Inr (root_query_set self, prepared_params self))"
proof -
  note p = prepared_params_spec [OF assms]
  have k: "map_of kwargs =
            (\<lambda>k. if k \<in> set (consumed_keys (filter_specs self) (root_query_set self)) then None
                 else spec_lookup_params (cl_params self) k)"
    if "snd (filter_kwargs self) = Inr (qs, kwargs)"
  proof -
    from that have "snd (filter_specs_loop (lookup_allowed (model_admin self)) (last_key self)
        (filter_specs self) (root_query_set self, prepared_params self)) = Inr (qs, kwargs)"
      by (simp add: filter_kwargs_def)
    from loop_consumed [OF this]
    have "map_of kwargs =
            (\<lambda>k. if k \<in> set (consumed_keys (filter_specs self) (root_query_set self)) then None
                 else map_of (prepared_params self) k)"
      by (simp only: fst_conv snd_conv)
    then show ?thesis
      by (simp only: p)
  qed
  have b: "(before_search orm self = Inl IncorrectLookupParameters) =
            (\<exists>e. orm_filter orm qs (map_of kwargs) = Inl e)"
    if "snd (filter_kwargs self) = Inr (qs, kwargs)"
    using that by (auto simp: before_search_def Let_def split: sum.splits)
  show ?thesis
    using p k b by (simp add: filter_kwargs_def)
qed

text \<open>
  The claim as stated fails where a filter spec consumes a parameter: the filter spec of
  the regression tests consumes \<^verbatim>\<open>about_django\<close>, and \<^verbatim>\<open>qs.filter\<close> receives the empty
  dictionary. It also fails for a parameter name outside ASCII: the key is stored again
  under its UTF-8 encoding with the unsplit value, and the split list is stored under
  the unicode key.
\<close>

theorem C1_lookup_params_counterexample:
  "snd (filter_kwargs (example_cl\<lparr>cl_params := [(''about_django'', ''1'')],
                                  filter_specs := [DjangoBookFilterSpec]\<rparr>)) =
     Inr ([''title__icontains=django''], [])
   \<and> spec_lookup_params [(''about_django'', ''1'')] (Text ''about_django'') = Some (PStr ''1'')
   \<and> prepared_params (example_cl\<lparr>cl_params := [(CHR 0xE9 # ''__in'', ''a,b'')]\<rparr>) =
       [(Bytes (CHR 0xC3 # CHR 0xA9 # ''__in''), PStr ''a,b''),
        (Text (CHR 0xE9 # ''__in''), PList [''a'', ''b''])]
   \<and> spec_lookup_params [(CHR 0xE9 # ''__in'', ''a,b'')]
        (Bytes (CHR 0xC3 # CHR 0xA9 # ''__in'')) = None"
  by code_simp

theorem C1_lookup_params_witness:
  "map_of (prepared_params example_cl) (Text ''tags__in'') = Some (PList [''a'', ''b''])
   \<and> map_of (prepared_params example_cl) (Text ''year__isnull'') = Some (PBool True)
   \<and> map_of (prepared_params example_cl) (Text ''q'') = None"
proof -
  have d: "distinct (map fst (cl_params example_cl))"
    by (simp add: example_cl_def)
  have a: "list_all (\<lambda>(k, v). is_ascii k) (cl_params example_cl)"
    by code_simp
  have s: "spec_lookup_params (cl_params example_cl) (Text ''tags__in'') = Some (PList [''a'', ''b''])"
    "spec_lookup_params (cl_params example_cl) (Text ''year__isnull'') = Some (PBool True)"
    "spec_lookup_params (cl_params example_cl) (Text ''q'') = None"
    by code_simp+
  from C1_lookup_params [OF d a, of "[]" "[]" example_orm] s show ?thesis
    by simp
qed

text \<open>
  C2. A registration with high priority is to put the pair after the high-priority
  pairs registered before it and before every low-priority pair. The list is shared by
  FieldFilterSpec and the classes derived from it, while the counter is bound in the
  class \<^verbatim>\<open>register\<close> is called on. After a low-priority registration of \<^verbatim>\<open>L\<close> through
  FieldFilterSpec, a high-priority registration of \<^verbatim>\<open>A\<close> through RelatedFilterSpec and
  one of \<^verbatim>\<open>B\<close> through FieldFilterSpec, the counter of FieldFilterSpec is still 0 and the
  list is \<^verbatim>\<open>B\<close>, \<^verbatim>\<open>A\<close>, \<^verbatim>\<open>L\<close>: the later pair stands before the earlier one, and
  \<^verbatim>\<open>create\<close> returns what \<^verbatim>\<open>B\<close> builds.
\<close>

theorem C2_register_order:
  "map (\<lambda>(test, factory). factory example_year ())
     (field_filter_specs
        (register FieldFilterSpec_class (\<lambda>f. True) (\<lambda>f ctx. ''B'') True
          (register RelatedFilterSpec_class (\<lambda>f. True) (\<lambda>f ctx. ''A'') True
            (register FieldFilterSpec_class (\<lambda>f. True) (\<lambda>f ctx. ''L'') False
               initial_registry)))) =
     [''B'', ''A'', ''L'']
   \<and> create FieldFilterSpec_class
        (register FieldFilterSpec_class (\<lambda>f. True) (\<lambda>f ctx. ''B'') True
          (register RelatedFilterSpec_class (\<lambda>f. True) (\<lambda>f ctx. ''A'') True
            (register FieldFilterSpec_class (\<lambda>f. True) (\<lambda>f ctx. ''L'') False
               initial_registry)))
        example_year () = Some ''B''
   \<and> high_priority_index
        (register RelatedFilterSpec_class (\<lambda>f. True) (\<lambda>f ctx. ''A'') True
          (register FieldFilterSpec_class (\<lambda>f. True) (\<lambda>f ctx. ''L'') False initial_registry))
        FieldFilterSpec_class = 0"
  by (simp add: register_def create_def list_insert_def initial_registry_def
      RelatedFilterSpec_class_def)

text \<open>
  C9 (amended). The choices of the four filter specs. Each starts with the choice \<^verbatim>\<open>All\<close>, followed
  by one choice per lookup value (for AllValuesFilterSpec: per value other than
  \<^verbatim>\<open>None\<close>), selected exactly when the request's lookup value is the
  \<^verbatim>\<open>smart_unicode\<close> of the choice's value; a last choice (\<^verbatim>\<open>(None)\<close> or \<^verbatim>\<open>Unknown\<close>)
  follows exactly for a nullable relation, for a NullBooleanField, and when \<^verbatim>\<open>None\<close> is
  among the values of an AllValuesFilterSpec. \<^verbatim>\<open>All\<close> is selected when the lookup value
  is absent and, for a RelatedFilterSpec, the isnull value is absent or empty, for an
  AllValuesFilterSpec, the isnull value is absent; the last choice of these two specs is
  selected when the isnull value is present and not empty. The three choices \<^verbatim>\<open>All\<close>,
  \<^verbatim>\<open>Yes\<close>, \<^verbatim>\<open>No\<close> of a BooleanFieldFilterSpec are selected when the lookup value is
  absent, \<^verbatim>\<open>1\<close>, \<^verbatim>\<open>0\<close> and the isnull value is absent or empty; its \<^verbatim>\<open>Unknown\<close> is
  selected when the isnull value is \<^verbatim>\<open>True\<close>. The lookup values are those of the request
  under the spec's lookup names.
\<close>

theorem C9_choices:
  "map selected (RelatedFilterSpec_choices ext cl rs) =
     (r_lookup_val rs = None \<and> \<not> truthy (r_lookup_val_isnull rs)) #
     map (\<lambda>(pk_val, val). r_lookup_val rs = Some (ext_smart_unicode ext pk_val))
       (r_lookup_choices rs) @
     (if related_nullable (spec_field rs) then [truthy (r_lookup_val_isnull rs)] else [])
   \<and> map display (RelatedFilterSpec_choices ext cl rs) =
       ext_ugettext ext ''All'' # map snd (r_lookup_choices rs) @
       (if related_nullable (spec_field rs) then [EMPTY_CHANGELIST_VALUE] else [])
   \<and> map selected (BooleanFieldFilterSpec_choices ext cl bs) =
       [b_lookup_val bs = None \<and> \<not> truthy (b_lookup_val2 bs),
        b_lookup_val bs = Some ''1'' \<and> \<not> truthy (b_lookup_val2 bs),
        b_lookup_val bs = Some ''0'' \<and> \<not> truthy (b_lookup_val2 bs)] @
       (if isinstance_NullBooleanField (spec_field bs)
        then [b_lookup_val2 bs = Some ''True''] else [])
   \<and> map display (BooleanFieldFilterSpec_choices ext cl bs) =
       [ext_ugettext ext ''All'', ext_ugettext ext ''Yes'', ext_ugettext ext ''No''] @
       (if isinstance_NullBooleanField (spec_field bs) then [ext_ugettext ext ''Unknown''] else [])
   \<and> map_sum (map selected) (map selected) (ChoicesFilterSpec_choices ext cl cs) =
       (case spec_field cs of
          RelatedObject ro \<Rightarrow> Inl [c_lookup_val cs = None]
        | Field a \<Rightarrow>
            Inr ((c_lookup_val cs = None) #
                 map (\<lambda>(k, v). c_lookup_val cs = Some (ext_smart_unicode ext k))
                   (f_flatchoices a)))
   \<and> map_sum (map display) (map display) (ChoicesFilterSpec_choices ext cl cs) =
       (case spec_field cs of
          RelatedObject ro \<Rightarrow> Inl [ext_ugettext ext ''All'']
        | Field a \<Rightarrow> Inr (ext_ugettext ext ''All'' # map snd (f_flatchoices a)))
   \<and> map selected (AllValuesFilterSpec_choices ext cl avs) =
       (a_lookup_val avs = None \<and> a_lookup_val_isnull avs = None) #
       map (\<lambda>v. a_lookup_val avs = Some (ext_smart_unicode ext v))
         (filter (\<lambda>v. v \<noteq> PNone) (a_lookup_choices avs)) @
       (if PNone \<in> set (a_lookup_choices avs) then [truthy (a_lookup_val_isnull avs)] else [])
   \<and> map display (AllValuesFilterSpec_choices ext cl avs) =
       ext_ugettext ext ''All'' #
       map (ext_smart_unicode ext) (filter (\<lambda>v. v \<noteq> PNone) (a_lookup_choices avs)) @
       (if PNone \<in> set (a_lookup_choices avs) then [EMPTY_CHANGELIST_VALUE] else [])
   \<and> r_lookup_val (RelatedFilterSpec_init ext f req params field_path) =
       GET_get req (r_lookup_kwarg (RelatedFilterSpec_init ext f req params field_path))
   \<and> r_lookup_val_isnull (RelatedFilterSpec_init ext f req params field_path) =
       GET_get req (r_lookup_kwarg_isnull (RelatedFilterSpec_init ext f req params field_path))
   \<and> r_lookup_choices (RelatedFilterSpec_init ext f req params field_path) =
       (case f of RelatedObject ro \<Rightarrow> ro_get_choices ro | Field a \<Rightarrow> f_get_choices a)
   \<and> b_lookup_val (BooleanFieldFilterSpec_init f req params field_path) =
       GET_get req (b_lookup_kwarg (BooleanFieldFilterSpec_init f req params field_path))
   \<and> b_lookup_val2 (BooleanFieldFilterSpec_init f req params field_path) =
       GET_get req (b_lookup_kwarg2 (BooleanFieldFilterSpec_init f req params field_path))
   \<and> c_lookup_val (ChoicesFilterSpec_init f req params field_path) =
       GET_get req (c_lookup_kwarg (ChoicesFilterSpec_init f req params field_path))
   \<and> a_lookup_val (AllValuesFilterSpec_init ext f req params field_path) =
       GET_get req (a_lookup_kwarg (AllValuesFilterSpec_init ext f req params field_path))
   \<and> a_lookup_val_isnull (AllValuesFilterSpec_init ext f req params field_path) =
       GET_get req (a_lookup_kwarg_isnull (AllValuesFilterSpec_init ext f req params field_path))
   \<and> a_lookup_choices (AllValuesFilterSpec_init ext f req params field_path) =
       ext_values_list ext f"
proof -
  have r1: "map selected (RelatedFilterSpec_choices ext cl rs) =
     (r_lookup_val rs = None \<and> \<not> truthy (r_lookup_val_isnull rs)) #
     map (\<lambda>(pk_val, val). r_lookup_val rs = Some (ext_smart_unicode ext pk_val))
       (r_lookup_choices rs) @
     (if related_nullable (spec_field rs) then [truthy (r_lookup_val_isnull rs)] else [])"
    by (simp add: RelatedFilterSpec_choices_def comp_def case_prod_beta)
  have r2: "map display (RelatedFilterSpec_choices ext cl rs) =
       ext_ugettext ext ''All'' # map snd (r_lookup_choices rs) @
       (if related_nullable (spec_field rs) then [EMPTY_CHANGELIST_VALUE] else [])"
    by (simp add: RelatedFilterSpec_choices_def comp_def case_prod_beta)
  have b1: "map selected (BooleanFieldFilterSpec_choices ext cl bs) =
       [b_lookup_val bs = None \<and> \<not> truthy (b_lookup_val2 bs),
        b_lookup_val bs = Some ''1'' \<and> \<not> truthy (b_lookup_val2 bs),
        b_lookup_val bs = Some ''0'' \<and> \<not> truthy (b_lookup_val2 bs)] @
       (if isinstance_NullBooleanField (spec_field bs)
        then [b_lookup_val2 bs = Some ''True''] else [])"
    by (simp add: BooleanFieldFilterSpec_choices_def)
  have b2: "map display (BooleanFieldFilterSpec_choices ext cl bs) =
       [ext_ugettext ext ''All'', ext_ugettext ext ''Yes'', ext_ugettext ext ''No''] @
       (if isinstance_NullBooleanField (spec_field bs) then [ext_ugettext ext ''Unknown''] else [])"
    by (simp add: BooleanFieldFilterSpec_choices_def)
  have c1: "map_sum (map selected) (map selected) (ChoicesFilterSpec_choices ext cl cs) =
       (case spec_field cs of
          RelatedObject ro \<Rightarrow> Inl [c_lookup_val cs = None]
        | Field a \<Rightarrow>
            Inr ((c_lookup_val cs = None) #
                 map (\<lambda>(k, v). c_lookup_val cs = Some (ext_smart_unicode ext k))
                   (f_flatchoices a)))"
    by (auto simp: ChoicesFilterSpec_choices_def Let_def comp_def case_prod_beta
        split: field.splits)
  have c2: "map_sum (map display) (map display) (ChoicesFilterSpec_choices ext cl cs) =
       (case spec_field cs of
          RelatedObject ro \<Rightarrow> Inl [ext_ugettext ext ''All'']
        | Field a \<Rightarrow> Inr (ext_ugettext ext ''All'' # map snd (f_flatchoices a)))"
    by (auto simp: ChoicesFilterSpec_choices_def Let_def comp_def case_prod_beta
        split: field.splits)
  have a1: "map selected (AllValuesFilterSpec_choices ext cl avs) =
       (a_lookup_val avs = None \<and> a_lookup_val_isnull avs = None) #
       map (\<lambda>v. a_lookup_val avs = Some (ext_smart_unicode ext v))
         (filter (\<lambda>v. v \<noteq> PNone) (a_lookup_choices avs)) @
       (if PNone \<in> set (a_lookup_choices avs) then [truthy (a_lookup_val_isnull avs)] else [])"
    by (simp add: AllValuesFilterSpec_choices_def all_values_loop_eq comp_def)
  have a2: "map display (AllValuesFilterSpec_choices ext cl avs) =
       ext_ugettext ext ''All'' #
       map (ext_smart_unicode ext) (filter (\<lambda>v. v \<noteq> PNone) (a_lookup_choices avs)) @
       (if PNone \<in> set (a_lookup_choices avs) then [EMPTY_CHANGELIST_VALUE] else [])"
    by (simp add: AllValuesFilterSpec_choices_def all_values_loop_eq comp_def)
  have i1: "r_lookup_val (RelatedFilterSpec_init ext f req params field_path) =
       GET_get req (r_lookup_kwarg (RelatedFilterSpec_init ext f req params field_path))"
    by (simp add: RelatedFilterSpec_init_def Let_def field_filter_spec.defs)
  have i2: "r_lookup_val_isnull (RelatedFilterSpec_init ext f req params field_path) =
       GET_get req (r_lookup_kwarg_isnull (RelatedFilterSpec_init ext f req params field_path))"
    by (simp add: RelatedFilterSpec_init_def Let_def field_filter_spec.defs)
  have i3: "r_lookup_choices (RelatedFilterSpec_init ext f req params field_path) =
       (case f of RelatedObject ro \<Rightarrow> ro_get_choices ro | Field a \<Rightarrow> f_get_choices a)"
    by (simp add: RelatedFilterSpec_init_def Let_def field_filter_spec.defs)
  have i4: "b_lookup_val (BooleanFieldFilterSpec_init f req params field_path) =
       GET_get req (b_lookup_kwarg (BooleanFieldFilterSpec_init f req params field_path))"
    by (simp add: BooleanFieldFilterSpec_init_def Let_def field_filter_spec.defs)
  have i5: "b_lookup_val2 (BooleanFieldFilterSpec_init f req params field_path) =
       GET_get req (b_lookup_kwarg2 (BooleanFieldFilterSpec_init f req params field_path))"
    by (simp add: BooleanFieldFilterSpec_init_def Let_def field_filter_spec.defs)
  have i6: "c_lookup_val (ChoicesFilterSpec_init f req params field_path) =
       GET_get req (c_lookup_kwarg (ChoicesFilterSpec_init f req params field_path))"
    by (simp add: ChoicesFilterSpec_init_def Let_def field_filter_spec.defs)
  have i7: "a_lookup_val (AllValuesFilterSpec_init ext f req params field_path) =
       GET_get req (a_lookup_kwarg (AllValuesFilterSpec_init ext f req params field_path))"
    by (simp add: AllValuesFilterSpec_init_def Let_def field_filter_spec.defs)
  have i8: "a_lookup_val_isnull (AllValuesFilterSpec_init ext f req params field_path) =
       GET_get req (a_lookup_kwarg_isnull (AllValuesFilterSpec_init ext f req params field_path))"
    by (simp add: AllValuesFilterSpec_init_def Let_def field_filter_spec.defs)
  have i9: "a_lookup_choices (AllValuesFilterSpec_init ext f req params field_path) =
       ext_values_list ext f"
    by (simp add: AllValuesFilterSpec_init_def Let_def field_filter_spec.defs)
  show ?thesis
    by (intro conjI r1 r2 b1 b2 c1 c2 a1 a2 i1 i2 i3 i4 i5 i6 i7 i8 i9)
qed

text \<open>
  The claim as stated fails on three requests. With \<^verbatim>\<open>?author__isnull=\<close> the isnull
  parameter of the RelatedFilterSpec appears in the request and \<^verbatim>\<open>All\<close> is selected all
  the same. With \<^verbatim>\<open>?completed__exact=1&completed__isnull=True\<close> the lookup value is that
  of \<^verbatim>\<open>Yes\<close>, which is not selected. With \<^verbatim>\<open>?completed__isnull=1\<close> the isnull parameter
  is set and \<^verbatim>\<open>Unknown\<close> is not selected.
\<close>

theorem C9_choices_counterexample:
  "GET_get (example_request [(''author__isnull'', '''')]) ''author__isnull'' = Some ''''
   \<and> r_lookup_kwarg_isnull
         (RelatedFilterSpec_init example_ext example_author
            (example_request [(''author__isnull'', '''')]) [(''author__isnull'', '''')] None) =
       ''author__isnull''
   \<and> map selected
         (RelatedFilterSpec_choices example_ext [(''author__isnull'', '''')]
            (RelatedFilterSpec_init example_ext example_author
               (example_request [(''author__isnull'', '''')]) [(''author__isnull'', '''')] None)) =
       [True, False, False, False, False]
   \<and> b_lookup_val
         (BooleanFieldFilterSpec_init example_completed
            (example_request [(''completed__exact'', ''1''), (''completed__isnull'', ''True'')])
            [(''completed__exact'', ''1''), (''completed__isnull'', ''True'')] None) =
       Some ''1''
   \<and> map selected
         (BooleanFieldFilterSpec_choices example_ext
            [(''completed__exact'', ''1''), (''completed__isnull'', ''True'')]
            (BooleanFieldFilterSpec_init example_completed
               (example_request [(''completed__exact'', ''1''), (''completed__isnull'', ''True'')])
               [(''completed__exact'', ''1''), (''completed__isnull'', ''True'')] None)) =
       [False, False, False, True]
   \<and> b_lookup_val2
         (BooleanFieldFilterSpec_init example_completed
            (example_request [(''completed__isnull'', ''1'')])
            [(''completed__isnull'', ''1'')] None) =
       Some ''1''
   \<and> map selected
         (BooleanFieldFilterSpec_choices example_ext [(''completed__isnull'', ''1'')]
            (BooleanFieldFilterSpec_init example_completed
               (example_request [(''completed__isnull'', ''1'')])
               [(''completed__isnull'', ''1'')] None)) =
       [False, False, False, False]"
  by code_simp

theorem C9_choices_witness:
  "map selected
     (AllValuesFilterSpec_choices example_ext [(''year__isnull'', ''True'')]
        (AllValuesFilterSpec_init example_ext example_year
           (example_request [(''year__isnull'', ''True'')]) [(''year__isnull'', ''True'')] None)) =
     [False, False, False, True]
   \<and> map selected
       (AllValuesFilterSpec_choices example_ext [(''year'', ''2002'')]
          (AllValuesFilterSpec_init example_ext example_year
             (example_request [(''year'', ''2002'')]) [(''year'', ''2002'')] None)) =
       [False, False, True, False]
   \<and> map display
       (RelatedFilterSpec_choices example_ext [(''author__id__exact'', ''2'')]
          (RelatedFilterSpec_init example_ext example_author
             (example_request [(''author__id__exact'', ''2'')])
             [(''author__id__exact'', ''2'')] None)) =
       [''All'', ''alfred'', ''bob'', ''lisa'', ''(None)'']
   \<and> map selected
       (RelatedFilterSpec_choices example_ext [(''author__id__exact'', ''2'')]
          (RelatedFilterSpec_init example_ext example_author
             (example_request [(''author__id__exact'', ''2'')])
             [(''author__id__exact'', ''2'')] None)) =
       [False, False, True, False, False]"
proof -
  let ?a1 = "AllValuesFilterSpec_init example_ext example_year
               (example_request [(''year__isnull'', ''True'')]) [(''year__isnull'', ''True'')] None"
  let ?a2 = "AllValuesFilterSpec_init example_ext example_year
               (example_request [(''year'', ''2002'')]) [(''year'', ''2002'')] None"
  let ?r = "RelatedFilterSpec_init example_ext example_author
              (example_request [(''author__id__exact'', ''2'')])
              [(''author__id__exact'', ''2'')] None"
  have "map selected (AllValuesFilterSpec_choices example_ext [(''year__isnull'', ''True'')] ?a1) =
        (a_lookup_val ?a1 = None \<and> a_lookup_val_isnull ?a1 = None) #
        map (\<lambda>v. a_lookup_val ?a1 = Some (ext_smart_unicode example_ext v))
          (filter (\<lambda>v. v \<noteq> PNone) (a_lookup_choices ?a1)) @
        (if PNone \<in> set (a_lookup_choices ?a1) then [truthy (a_lookup_val_isnull ?a1)] else [])"
    by (rule C9_choices [THEN conjunct2, THEN conjunct2, THEN conjunct2, THEN conjunct2,
          THEN conjunct2, THEN conjunct2, THEN conjunct1])
  also have "\<dots> = [False, False, False, True]"
    by code_simp
  finally have 1:
    "map selected (AllValuesFilterSpec_choices example_ext [(''year__isnull'', ''True'')] ?a1) =
     [False, False, False, True]" .
  have "map selected (AllValuesFilterSpec_choices example_ext [(''year'', ''2002'')] ?a2) =
        (a_lookup_val ?a2 = None \<and> a_lookup_val_isnull ?a2 = None) #
        map (\<lambda>v. a_lookup_val ?a2 = Some (ext_smart_unicode example_ext v))
          (filter (\<lambda>v. v \<noteq> PNone) (a_lookup_choices ?a2)) @
        (if PNone \<in> set (a_lookup_choices ?a2) then [truthy (a_lookup_val_isnull ?a2)] else [])"
    by (rule C9_choices [THEN conjunct2, THEN conjunct2, THEN conjunct2, THEN conjunct2,
          THEN conjunct2, THEN conjunct2, THEN conjunct1])
  also have "\<dots> = [False, False, True, False]"
    by code_simp
  finally have 2:
    "map selected (AllValuesFilterSpec_choices example_ext [(''year'', ''2002'')] ?a2) =
     [False, False, True, False]" .
  have "map display (RelatedFilterSpec_choices example_ext [(''author__id__exact'', ''2'')] ?r) =
        ext_ugettext example_ext ''All'' # map snd (r_lookup_choices ?r) @
        (if related_nullable (spec_field ?r) then [EMPTY_CHANGELIST_VALUE] else [])"
    by (rule C9_choices [THEN conjunct2, THEN conjunct1])
  also have "\<dots> = [''All'', ''alfred'', ''bob'', ''lisa'', ''(None)'']"
    by code_simp
  finally have 3:
    "map display (RelatedFilterSpec_choices example_ext [(''author__id__exact'', ''2'')] ?r) =
     [''All'', ''alfred'', ''bob'', ''lisa'', ''(None)'']" .
  have "map selected (RelatedFilterSpec_choices example_ext [(''author__id__exact'', ''2'')] ?r) =
        (r_lookup_val ?r = None \<and> \<not> truthy (r_lookup_val_isnull ?r)) #
        map (\<lambda>(pk_val, val). r_lookup_val ?r = Some (ext_smart_unicode example_ext pk_val))
          (r_lookup_choices ?r) @
        (if related_nullable (spec_field ?r) then [truthy (r_lookup_val_isnull ?r)] else [])"
    by (rule C9_choices [THEN conjunct1])
  also have "\<dots> = [False, False, True, False, False]"
    by code_simp
  finally have 4:
    "map selected (RelatedFilterSpec_choices example_ext [(''author__id__exact'', ''2'')] ?r) =
     [False, False, True, False, False]" .
  from 1 2 3 4 show ?thesis
    by (intro conjI)
qed

end
